theory Spec2Isabelle
  imports Main "HOL-Library.Word"
begin

unbundle bit_operations_syntax

section \<open>Access check results (FileAccessHelpers.h)\<close>

type_synonym DWORD = "32 word"

datatype ReportLevel = Ignore | Report | ReportExplicit

datatype ResultAction = Allow | Deny | Warn

datatype PathValidity = Valid | PathComponentNotFound | Invalid

text \<open>
  \<open>RequestedAccess\<close> is a flags enum (\<open>DEFINE_ENUM_FLAG_OPERATORS\<close>); its values are
  kept as the underlying integer so that \<open>|\<close> is the bitwise or.
\<close>

type_synonym RequestedAccess = "32 word"

definition RequestedAccess_None :: RequestedAccess where "RequestedAccess_None = 0x0"
definition RequestedAccess_Read :: RequestedAccess where "RequestedAccess_Read = 0x1"
definition RequestedAccess_Write :: RequestedAccess where "RequestedAccess_Write = 0x2"
definition RequestedAccess_Probe :: RequestedAccess where "RequestedAccess_Probe = 0x4"
definition RequestedAccess_Enumerate :: RequestedAccess where "RequestedAccess_Enumerate = 0x8"
definition RequestedAccess_EnumerationProbe :: RequestedAccess where
  "RequestedAccess_EnumerationProbe = 0x10"
definition RequestedAccess_Lookup :: RequestedAccess where "RequestedAccess_Lookup = 0x20"

record AccessCheckResult =
  Access :: RequestedAccess
  Result :: ResultAction
  Level :: ReportLevel
  Validity :: PathValidity

text \<open>The three-argument constructor sets the validity to \<open>Valid\<close>.\<close>

definition AccessCheckResult3 ::
  "RequestedAccess \<Rightarrow> ResultAction \<Rightarrow> ReportLevel \<Rightarrow> AccessCheckResult" where
  "AccessCheckResult3 requestedAccess result reportLevel =
     \<lparr>Access = requestedAccess, Result = result, Level = reportLevel, Validity = Valid\<rparr>"

definition ShouldReport :: "AccessCheckResult \<Rightarrow> bool" where
  "ShouldReport r = (Level r = Report \<or> Level r = ReportExplicit)"

definition ShouldDenyAccess :: "AccessCheckResult \<Rightarrow> bool" where
  "ShouldDenyAccess r = (Result r = Deny)"

definition ERROR_SUCCESS :: DWORD where "ERROR_SUCCESS = 0"
definition ERROR_PATH_NOT_FOUND :: DWORD where "ERROR_PATH_NOT_FOUND = 3"
definition ERROR_ACCESS_DENIED :: DWORD where "ERROR_ACCESS_DENIED = 5"
definition ERROR_INSUFFICIENT_BUFFER :: DWORD where "ERROR_INSUFFICIENT_BUFFER = 122"
definition ERROR_INVALID_NAME :: DWORD where "ERROR_INVALID_NAME = 123"
definition ERROR_MORE_DATA :: DWORD where "ERROR_MORE_DATA = 234"

definition DenialError :: "AccessCheckResult \<Rightarrow> DWORD" where
  "DenialError r =
     (case Validity r of
        Valid \<Rightarrow> ERROR_ACCESS_DENIED
      | PathComponentNotFound \<Rightarrow> ERROR_PATH_NOT_FOUND
      | Invalid \<Rightarrow> ERROR_INVALID_NAME)"

definition DenialNtStatus :: "AccessCheckResult \<Rightarrow> DWORD" where
  "DenialNtStatus r =
     (case Validity r of
        Valid \<Rightarrow> 0xC0000022
      | PathComponentNotFound \<Rightarrow> 0xC000003A
      | Invalid \<Rightarrow> 0xC0000033)"

text \<open>
  \<open>AccessCheckResult::Combine\<close>: the left operand is the starting point and the right
  operand overrides it component by component.
\<close>

definition Combine :: "AccessCheckResult \<Rightarrow> AccessCheckResult \<Rightarrow> AccessCheckResult" where
  "Combine left right =
     (let combinedResultAction = Result left;
          combinedReportLevel = Level left;
          combinedPathValidity = Validity left;
          combinedRequestedAccess = Access left OR Access right;
          combinedResultAction =
            (if Result right = Deny then Deny
             else if Result right = Warn \<and> combinedResultAction = Allow then Warn
             else combinedResultAction);
          combinedReportLevel =
            (if Level right = ReportExplicit then ReportExplicit
             else if Level right = Report \<and> combinedReportLevel = Ignore then Report
             else combinedReportLevel);
          combinedPathValidity =
            (if Validity right = Invalid then Invalid
             else if Validity right = PathComponentNotFound \<and> combinedPathValidity = Valid
               then PathComponentNotFound
             else combinedPathValidity)
      in \<lparr>Access = combinedRequestedAccess, Result = combinedResultAction,
          Level = combinedReportLevel, Validity = combinedPathValidity\<rparr>)"

section \<open>Strings, indices and faults\<close>

text \<open>
  Paths are \<open>std::wstring\<close> values, modelled as character lists. An Isabelle string
  literal cannot contain a backslash, so \<open>winpath\<close> writes one: in its argument every
  \<open>/\<close> stands for the backslash.
\<close>

definition BACKSLASH :: char where "BACKSLASH = CHR 0x5C"

definition winpath :: "string \<Rightarrow> string" where
  "winpath s = map (\<lambda>c. if c = CHR ''/'' then BACKSLASH else c) s"

text \<open>
  What the C++ leaves undefined or throws is a value of the model: an index past the end
  of a string (\<open>operator[]\<close>), a missing key (\<open>std::map::at\<close>), and a loop that has
  not finished within the given number of iterations.
\<close>

datatype fault = OutOfRange | OutOfFuel

text \<open>
  \<open>size_t\<close> is a 64-bit unsigned integer; \<open>npos\<close> is its largest value and
  subtraction wraps around.
\<close>

definition npos :: nat where "npos = 18446744073709551615"

definition size_t_sub :: "nat \<Rightarrow> nat \<Rightarrow> nat" where
  "size_t_sub a b = (a + 18446744073709551616 - b) mod 18446744073709551616"

text \<open>
  \<open>std::wstring::find_last_of(ch, pos)\<close>: the greatest index not above \<open>pos\<close> that
  holds \<open>ch\<close>, or \<open>npos\<close>. With \<open>pos = npos\<close> the whole string is searched.
\<close>

fun find_last_aux :: "char \<Rightarrow> string \<Rightarrow> nat \<Rightarrow> nat \<Rightarrow> nat \<Rightarrow> nat" where
  "find_last_aux ch [] i pos found = found"
| "find_last_aux ch (x # xs) i pos found =
     (if pos < i then found else find_last_aux ch xs (Suc i) pos (if x = ch then i else found))"

definition find_last_of :: "string \<Rightarrow> char \<Rightarrow> nat \<Rightarrow> nat" where
  "find_last_of s ch pos = find_last_aux ch s 0 pos npos"

subsection \<open>Case-insensitive ordering of paths (UtilityHelpers.h)\<close>

text \<open>\<open>towlower\<close> on the ASCII range; other characters are left as they are.\<close>

definition towlower :: "char \<Rightarrow> char" where
  "towlower c =
     (let n = (of_char c :: nat) in if 65 \<le> n \<and> n \<le> 90 then char_of (n + 32) else c)"


fun lexicographical_compare :: "('a \<Rightarrow> 'a \<Rightarrow> bool) \<Rightarrow> 'a list \<Rightarrow> 'a list \<Rightarrow> bool" where
  "lexicographical_compare lt [] [] = False"
| "lexicographical_compare lt [] (y # ys) = True"
| "lexicographical_compare lt (x # xs) [] = False"
| "lexicographical_compare lt (x # xs) (y # ys) =
     (if lt x y then True else if lt y x then False
      else lexicographical_compare lt xs ys)"

text \<open>
  The comparator of the resolved-path map. (The source first returns false when both
  arguments are the same object; the comparison below gives false there too.)
\<close>

definition CaseInsensitiveStringLessThan :: "string \<Rightarrow> string \<Rightarrow> bool" where
  "CaseInsensitiveStringLessThan lhs rhs =
     (if length lhs = length rhs then
        lexicographical_compare
          (\<lambda>a b. if a = b then False
                 else (of_char (towlower a) :: nat) < of_char (towlower b))
          (rev rhs) (rev lhs)
      else length lhs < length rhs)"

datatype ResolvedPathType = Intermediate | FullyResolved

text \<open>
  \<open>std::map<wstring, ResolvedPathType, CaseInsensitiveStringLessThan>\<close>: two keys are
  the same key when neither is less than the other. \<open>emplace\<close> does not overwrite,
  \<open>at\<close> throws for a missing key.
\<close>

type_synonym ResolvedPathMap = "(string \<times> ResolvedPathType) list"

definition same_key :: "string \<Rightarrow> string \<Rightarrow> bool" where
  "same_key a b =
     (\<not> CaseInsensitiveStringLessThan a b \<and> \<not> CaseInsensitiveStringLessThan b a)"

definition map_find :: "ResolvedPathMap \<Rightarrow> string \<Rightarrow> (string \<times> ResolvedPathType) option" where
  "map_find m k = find (\<lambda>e. same_key (fst e) k) m"

definition emplace :: "string \<Rightarrow> ResolvedPathType \<Rightarrow> ResolvedPathMap \<Rightarrow> ResolvedPathMap" where
  "emplace k v m = (case map_find m k of None \<Rightarrow> m @ [(k, v)] | Some e \<Rightarrow> m)"

definition map_at :: "ResolvedPathMap \<Rightarrow> string \<Rightarrow> fault + ResolvedPathType" where
  "map_at m k = (case map_find m k of None \<Rightarrow> Inl OutOfRange | Some e \<Rightarrow> Inr (snd e))"

text \<open>The value stored under a key, if there is one.\<close>

definition lookup :: "ResolvedPathMap \<Rightarrow> string \<Rightarrow> ResolvedPathType option" where
  "lookup m k = map_option snd (map_find m k)"


section \<open>The environment of the sandboxed process\<close>

text \<open>
  A handle is a number; \<open>INVALID_HANDLE_VALUE\<close> is \<open>None\<close>. The reparse data
  buffer is kept as the fields the code reads from it.
\<close>

type_synonym HANDLE = "nat option"

record REPARSE_DATA_BUFFER =
  ReparseTag :: DWORD
  PrintName :: string
  SubstituteName :: string

datatype FileExistence = Existent | Nonexistent | InvalidPath

record FileReadContext =
  Existence :: FileExistence
  OpenedDirectory :: bool

text \<open>
  A canonicalized path is used through its two renderings, with and without the type
  prefix.
\<close>

record CanonicalizedPath =
  GetPathString :: string
  GetPathStringWithoutTypePrefix :: string

datatype RequestedReadAccess = ReadAccess_Read | ReadAccess_Probe

text \<open>
  The policy that applies to one path. The class \<open>PolicyResult\<close> is declared outside
  the translated sources; its queries are taken as given values.
\<close>

datatype FileAccessPolicy = FileAccessPolicy_EnableFullReparsePointParsing

record PolicyResult =
  EnableFullReparsePointParsing :: bool
  FindLowestConsecutiveLevelThatStillHasProperty :: "FileAccessPolicy \<Rightarrow> nat"
  TreatDirectorySymlinkAsDirectory :: bool
  CheckCreateDirectoryAccess :: AccessCheckResult
  CheckWriteAccess :: AccessCheckResult
  CheckReadAccess :: "RequestedReadAccess \<Rightarrow> FileReadContext \<Rightarrow> AccessCheckResult"

text \<open>
  Everything the code asks of its surroundings and that does not change while it runs:
  the manifest flags, the string utilities declared in headers outside the translated
  sources (\<open>IsDirectorySeparator\<close>, \<open>GetRootLength\<close>,
  \<open>CanonicalizedPath::Canonicalize\<close>, \<open>GetPathWithoutPrefix\<close>), the path
  translations of the manifest, the operating system calls, and the policy
  lookup \<open>PolicyResult::Initialize\<close> (\<open>None\<close> when the policy is indeterminate).
  An operating system call returns its result and the error code it leaves as the
  thread's last error (\<open>None\<close> when it leaves the last error alone).
  \<open>Canonicalize\<close> gives the path string of the canonicalized path and
  \<open>CanonicalizeWithoutTypePrefix\<close> its path string without the type prefix.
  \<open>_wsplitpath_s\<close> gives drive, directory, file name and extension, or \<open>None\<close>
  for an error code other than 0; \<open>PathCchCanonicalizeEx\<close> gives the canonical path,
  or \<open>None\<close> for a result other than \<open>S_OK\<close>.
\<close>

record env =
  IgnoreReparsePoints :: bool
  IgnoreFullReparsePointResolving :: bool
  MonitorNtCreateFile :: bool
  ProbeDirectorySymlinkAsDirectory :: bool
  IsDirectorySeparator :: "char \<Rightarrow> bool"
  GetRootLength :: "string \<Rightarrow> nat"
  Canonicalize :: "string \<Rightarrow> string"
  CanonicalizeWithoutTypePrefix :: "string \<Rightarrow> string"
  GetPathWithoutPrefix :: "string \<Rightarrow> string"
  ManifestTranslatePathLookupTable :: "string set"
  wsplitpath_s :: "string \<Rightarrow> (string \<times> string \<times> string \<times> string) option"
  PathCchCanonicalizeEx :: "string \<Rightarrow> string option"
  GetFileInformationByHandle :: "nat \<Rightarrow> DWORD option \<times> DWORD option"
  GetFileAttributesW :: "string \<Rightarrow> DWORD \<times> DWORD option"
  FindFirstFileW :: "string \<Rightarrow> DWORD option \<times> DWORD option"
  FindClose :: "DWORD option"
  CreateFileW :: "string \<Rightarrow> nat option \<times> DWORD option"
  DeviceIoControl :: "nat \<Rightarrow> DWORD \<Rightarrow> REPARSE_DATA_BUFFER option \<times> DWORD option"
  CloseHandle :: "nat \<Rightarrow> DWORD option"
  PolicyInitialize :: "string \<Rightarrow> PolicyResult option"

definition FILE_ATTRIBUTE_DIRECTORY :: DWORD where "FILE_ATTRIBUTE_DIRECTORY = 0x10"
definition FILE_ATTRIBUTE_NORMAL :: DWORD where "FILE_ATTRIBUTE_NORMAL = 0x80"
definition FILE_ATTRIBUTE_REPARSE_POINT :: DWORD where "FILE_ATTRIBUTE_REPARSE_POINT = 0x400"
definition INVALID_FILE_ATTRIBUTES :: DWORD where "INVALID_FILE_ATTRIBUTES = 0xFFFFFFFF"
definition IO_REPARSE_TAG_SYMLINK :: DWORD where "IO_REPARSE_TAG_SYMLINK = 0xA000000C"
definition IO_REPARSE_TAG_MOUNT_POINT :: DWORD where "IO_REPARSE_TAG_MOUNT_POINT = 0xA0000003"
definition GENERIC_READ :: DWORD where "GENERIC_READ = 0x80000000"
definition GENERIC_WRITE :: DWORD where "GENERIC_WRITE = 0x40000000"
definition GENERIC_ALL :: DWORD where "GENERIC_ALL = 0x10000000"
definition DELETE :: DWORD where "DELETE = 0x00010000"
definition FILE_READ_DATA :: DWORD where "FILE_READ_DATA = 0x1"
definition FILE_WRITE_DATA :: DWORD where "FILE_WRITE_DATA = 0x2"
definition FILE_APPEND_DATA :: DWORD where "FILE_APPEND_DATA = 0x4"
definition FILE_READ_EA :: DWORD where "FILE_READ_EA = 0x8"
definition FILE_WRITE_EA :: DWORD where "FILE_WRITE_EA = 0x10"
definition FILE_READ_ATTRIBUTES :: DWORD where "FILE_READ_ATTRIBUTES = 0x80"
definition FILE_WRITE_ATTRIBUTES :: DWORD where "FILE_WRITE_ATTRIBUTES = 0x100"
definition FILE_SHARE_READ :: DWORD where "FILE_SHARE_READ = 0x1"
definition FILE_SHARE_WRITE :: DWORD where "FILE_SHARE_WRITE = 0x2"
definition FILE_SHARE_DELETE :: DWORD where "FILE_SHARE_DELETE = 0x4"
definition OPEN_EXISTING :: DWORD where "OPEN_EXISTING = 3"
definition FILE_FLAG_OPEN_REPARSE_POINT :: DWORD where "FILE_FLAG_OPEN_REPARSE_POINT = 0x00200000"
definition FILE_FLAG_BACKUP_SEMANTICS :: DWORD where "FILE_FLAG_BACKUP_SEMANTICS = 0x02000000"
definition INITIAL_REPARSE_DATA_BUILDXL_DETOURS_BUFFER_SIZE_FOR_FILE_NAMES :: DWORD where
  "INITIAL_REPARSE_DATA_BUILDXL_DETOURS_BUFFER_SIZE_FOR_FILE_NAMES = 1024"

section \<open>The state of the sandboxed process\<close>

text \<open>
  The state a detour can change: the thread's last error, the three memos of the
  resolved path cache, the reports sent to the orchestrator and the warnings logged.
  The calls made to the operating system are recorded in \<open>calls\<close>, so that a
  statement can say which device queries a function issued.
\<close>

datatype os_event =
    Ev_GetFileInformationByHandle nat
  | Ev_GetFileAttributesW string
  | Ev_FindFirstFileW string
  | Ev_FindClose
  | Ev_CreateFileW string
  | Ev_DeviceIoControl nat DWORD
  | Ev_CloseHandle nat

record FileOperationContext =
  Operation :: string
  NoncanonicalPath :: string
  DesiredAccess :: DWORD
  ShareMode :: DWORD
  CreationDisposition :: DWORD
  FlagsAndAttributes :: DWORD
  OpenedFileOrDirectoryAttributes :: DWORD

text \<open>
  A report is either a call of \<open>ReportFileAccess\<close> (with the context, the
  status, the access check and the error code) or the report of an indeterminate
  policy.
\<close>

datatype FileAccessStatus = FileAccessStatus_Allowed | FileAccessStatus_Denied

datatype report =
    FileAccessReport FileOperationContext FileAccessStatus AccessCheckResult DWORD
  | IndeterminatePolicyReport FileOperationContext

record state =
  LastError :: DWORD
  ResolvingCheckResults :: "string \<rightharpoonup> bool"
  ResolvedPathsAndTypes :: "string \<rightharpoonup> string \<times> DWORD"
  ResolvedPaths :: "string \<times> bool \<rightharpoonup> string list \<times> ResolvedPathMap"
  calls :: "os_event list"
  reports :: "report list"
  warnings :: "string list"

definition os_call :: "os_event \<Rightarrow> DWORD option \<Rightarrow> state \<Rightarrow> state" where
  "os_call ev e s =
     s\<lparr>calls := calls s @ [ev],
       LastError := (case e of None \<Rightarrow> LastError s | Some x \<Rightarrow> x)\<rparr>"

definition is_device_query :: "os_event \<Rightarrow> bool" where
  "is_device_query ev = (case ev of Ev_DeviceIoControl h n \<Rightarrow> True | _ \<Rightarrow> False)"

definition device_queries :: "state \<Rightarrow> nat" where
  "device_queries s = length (filter is_device_query (calls s))"

subsection \<open>Resolved path cache\<close>

text \<open>
  Modelled from the spec: the class \<open>ResolvedPathCache\<close> (ResolvedPathCache.h) is not
  among the translated sources. Following the contract of the path cache, every memo is
  keyed by the path string up to letter case, a lookup returns the memo if present, and
  an insertion memoizes its arguments and reports success.
\<close>

definition cache_key :: "string \<Rightarrow> string" where
  "cache_key path = map towlower path"

definition ResolvedPathCache_GetResolvingCheckResult :: "state \<Rightarrow> string \<Rightarrow> bool option" where
  "ResolvedPathCache_GetResolvingCheckResult s path = ResolvingCheckResults s (cache_key path)"

definition ResolvedPathCache_InsertResolvingCheckResult :: "string \<Rightarrow> bool \<Rightarrow> state \<Rightarrow> state" where
  "ResolvedPathCache_InsertResolvingCheckResult path result s =
     s\<lparr>ResolvingCheckResults := (ResolvingCheckResults s)(cache_key path \<mapsto> result)\<rparr>"

definition ResolvedPathCache_GetResolvedPathAndType ::
  "state \<Rightarrow> string \<Rightarrow> (string \<times> DWORD) option" where
  "ResolvedPathCache_GetResolvedPathAndType s path = ResolvedPathsAndTypes s (cache_key path)"

definition ResolvedPathCache_InsertResolvedPathWithType ::
  "string \<Rightarrow> string \<Rightarrow> DWORD \<Rightarrow> state \<Rightarrow> state" where
  "ResolvedPathCache_InsertResolvedPathWithType path resolved reparsePointType s =
     s\<lparr>ResolvedPathsAndTypes :=
         (ResolvedPathsAndTypes s)(cache_key path \<mapsto> (resolved, reparsePointType))\<rparr>"



subsection \<open>The guarded cache accessors of DetouredFunctions.cpp\<close>

definition IgnoreFullReparsePointResolvingForPath :: "env \<Rightarrow> PolicyResult \<Rightarrow> bool" where
  "IgnoreFullReparsePointResolvingForPath env policyResult =
     (IgnoreFullReparsePointResolving env \<and> \<not> EnableFullReparsePointParsing policyResult)"


definition PathCache_GetResolvedPathAndType ::
  "env \<Rightarrow> string \<Rightarrow> PolicyResult \<Rightarrow> state \<Rightarrow> (string \<times> DWORD) option" where
  "PathCache_GetResolvedPathAndType env path policyResult s =
     (if IgnoreReparsePoints env \<or> IgnoreFullReparsePointResolvingForPath env policyResult
      then None
      else ResolvedPathCache_GetResolvedPathAndType s path)"

definition PathCache_InsertResolvedPathWithType ::
  "env \<Rightarrow> string \<Rightarrow> string \<Rightarrow> DWORD \<Rightarrow> PolicyResult \<Rightarrow> state \<Rightarrow> state" where
  "PathCache_InsertResolvedPathWithType env path resolved reparsePointType policyResult s =
     (if IgnoreReparsePoints env \<or> IgnoreFullReparsePointResolvingForPath env policyResult
      then s
      else ResolvedPathCache_InsertResolvedPathWithType path resolved reparsePointType s)"

definition PathCache_GetResolvingCheckResult ::
  "env \<Rightarrow> string \<Rightarrow> PolicyResult \<Rightarrow> state \<Rightarrow> bool option" where
  "PathCache_GetResolvingCheckResult env path policyResult s =
     (if IgnoreReparsePoints env \<or> IgnoreFullReparsePointResolvingForPath env policyResult
      then None
      else ResolvedPathCache_GetResolvingCheckResult s path)"

definition PathCache_InsertResolvingCheckResult ::
  "env \<Rightarrow> string \<Rightarrow> bool \<Rightarrow> PolicyResult \<Rightarrow> state \<Rightarrow> state" where
  "PathCache_InsertResolvingCheckResult env path result policyResult s =
     (if IgnoreReparsePoints env \<or> IgnoreFullReparsePointResolvingForPath env policyResult
      then s
      else ResolvedPathCache_InsertResolvingCheckResult path result s)"



section \<open>Reparse target reader (DetouredFunctions.cpp)\<close>

text \<open>
  \<open>IsReparsePoint\<close>: by handle if there is one and the query succeeds, else by name
  (\<open>None\<close> is the null pointer). Every return restores the last error.
\<close>

definition IsReparsePoint :: "env \<Rightarrow> string option \<Rightarrow> HANDLE \<Rightarrow> state \<Rightarrow> bool \<times> state" where
  "IsReparsePoint env lpFileName hFile s =
     (let lastError = LastError s;
          byHandle =
            (case hFile of
               None \<Rightarrow> (None, s)
             | Some h \<Rightarrow>
                 (fst (GetFileInformationByHandle env h),
                  os_call (Ev_GetFileInformationByHandle h)
                    (snd (GetFileInformationByHandle env h)) s))
      in case fst byHandle of
           Some dwFileAttributes \<Rightarrow>
             (dwFileAttributes AND FILE_ATTRIBUTE_REPARSE_POINT \<noteq> 0,
              (snd byHandle)\<lparr>LastError := lastError\<rparr>)
         | None \<Rightarrow>
             (case lpFileName of
                None \<Rightarrow> (False, (snd byHandle)\<lparr>LastError := lastError\<rparr>)
              | Some name \<Rightarrow>
                  (let attributes = fst (GetFileAttributesW env name);
                       s2 = os_call (Ev_GetFileAttributesW name)
                              (snd (GetFileAttributesW env name)) (snd byHandle)
                   in (attributes \<noteq> INVALID_FILE_ATTRIBUTES
                         \<and> attributes AND FILE_ATTRIBUTE_REPARSE_POINT \<noteq> 0,
                       s2\<lparr>LastError := lastError\<rparr>))))"

text \<open>
  \<open>GetReparsePointType\<close>: the \<open>dwReserved0\<close> field of the find data, or 0. The
  callers pass the characters of a string, never a null pointer.
\<close>

definition GetReparsePointType :: "env \<Rightarrow> string \<Rightarrow> HANDLE \<Rightarrow> state \<Rightarrow> DWORD \<times> state" where
  "GetReparsePointType env lpFileName hFile s =
     (let lastError = LastError s;
          r = IsReparsePoint env (Some lpFileName) hFile s
      in if fst r then
           (let s1 = os_call (Ev_FindFirstFileW lpFileName) (snd (FindFirstFileW env lpFileName))
                       (snd r)
            in case fst (FindFirstFileW env lpFileName) of
                 Some dwReserved0 \<Rightarrow>
                   (dwReserved0, (os_call Ev_FindClose (FindClose env) s1)\<lparr>LastError := lastError\<rparr>)
               | None \<Rightarrow> (0, s1\<lparr>LastError := lastError\<rparr>))
         else (0, (snd r)\<lparr>LastError := lastError\<rparr>))"

definition IsActionableReparsePointType :: "DWORD \<Rightarrow> bool" where
  "IsActionableReparsePointType reparsePointType =
     (reparsePointType = IO_REPARSE_TAG_SYMLINK \<or> reparsePointType = IO_REPARSE_TAG_MOUNT_POINT)"

text \<open>
  \<open>GetTargetNameFromReparseData\<close>: the print name, or the substitute name when the
  print name is empty or a single space. \<open>name\<close> is an in-out parameter.
\<close>

definition GetTargetNameFromReparseData :: "REPARSE_DATA_BUFFER \<Rightarrow> DWORD \<Rightarrow> string \<Rightarrow> string" where
  "GetTargetNameFromReparseData pReparseDataBuffer reparsePointType name =
     (if reparsePointType = IO_REPARSE_TAG_SYMLINK then
        (let name = PrintName pReparseDataBuffer
         in if length name = 0 \<or> name = '' '' then SubstituteName pReparseDataBuffer else name)
      else if reparsePointType = IO_REPARSE_TAG_MOUNT_POINT then
        (let name = PrintName pReparseDataBuffer
         in if length name = 0 \<or> name = '' '' then SubstituteName pReparseDataBuffer else name)
      else name)"

text \<open>
  The loop that queries the reparse data with a growing buffer. \<open>bufferSize *= 2\<close>
  is a multiplication of 32-bit words. Before each query the buffer is cleared, so a
  failed query leaves a buffer of zeros. The loop ends only when the error code is
  neither \<open>ERROR_MORE_DATA\<close> nor \<open>ERROR_INSUFFICIENT_BUFFER\<close>; the first argument
  after the environment bounds the number of iterations.
\<close>

definition zero_buffer :: REPARSE_DATA_BUFFER where
  "zero_buffer = \<lparr>ReparseTag = 0, PrintName = [], SubstituteName = []\<rparr>"

fun reparse_query_loop ::
  "env \<Rightarrow> nat \<Rightarrow> nat \<Rightarrow> DWORD \<Rightarrow> DWORD \<Rightarrow> REPARSE_DATA_BUFFER \<Rightarrow> state
   \<Rightarrow> fault + (DWORD \<times> REPARSE_DATA_BUFFER \<times> state)" where
  "reparse_query_loop env 0 hFile bufferSize errorCode buffer s =
     (if errorCode = ERROR_MORE_DATA \<or> errorCode = ERROR_INSUFFICIENT_BUFFER
      then Inl OutOfFuel else Inr (errorCode, buffer, s))"
| "reparse_query_loop env (Suc n) hFile bufferSize errorCode buffer s =
     (if errorCode = ERROR_MORE_DATA \<or> errorCode = ERROR_INSUFFICIENT_BUFFER then
        (let s1 = os_call (Ev_DeviceIoControl hFile bufferSize)
                    (snd (DeviceIoControl env hFile bufferSize)) s
         in case fst (DeviceIoControl env hFile bufferSize) of
              Some data \<Rightarrow> reparse_query_loop env n hFile bufferSize ERROR_SUCCESS data s1
            | None \<Rightarrow>
                reparse_query_loop env n hFile (bufferSize * 2) (LastError s1) zero_buffer s1)
      else Inr (errorCode, buffer, s))"

text \<open>The code from the label \<open>Epilogue\<close> on.\<close>

definition TryGetReparsePointTarget_Epilogue ::
  "env \<Rightarrow> HANDLE \<Rightarrow> HANDLE \<Rightarrow> DWORD \<Rightarrow> bool \<Rightarrow> string \<Rightarrow> state \<Rightarrow> bool \<times> string \<times> state" where
  "TryGetReparsePointTarget_Epilogue env hFile hInput lastError status target s =
     (let s1 = (case hFile of
                  None \<Rightarrow> s
                | Some h \<Rightarrow> if hFile \<noteq> hInput then os_call (Ev_CloseHandle h) (CloseHandle env h) s
                            else s)
      in (status, target, s1\<lparr>LastError := lastError\<rparr>))"

text \<open>The code from the label \<open>Error\<close> on: the dummy entry of type 0 is cached.\<close>

definition TryGetReparsePointTarget_Error ::
  "env \<Rightarrow> string \<Rightarrow> HANDLE \<Rightarrow> HANDLE \<Rightarrow> DWORD \<Rightarrow> string \<Rightarrow> PolicyResult \<Rightarrow> state
   \<Rightarrow> bool \<times> string \<times> state" where
  "TryGetReparsePointTarget_Error env path hFile hInput lastError target policyResult s =
     TryGetReparsePointTarget_Epilogue env hFile hInput lastError False target
       (PathCache_InsertResolvedPathWithType env path target 0x0 policyResult s)"

text \<open>
  \<open>TryGetReparsePointTarget\<close>. \<open>target\<close> is an in-out parameter. \<open>fuel\<close> bounds
  the iterations of the query loop.
\<close>

definition TryGetReparsePointTarget ::
  "env \<Rightarrow> nat \<Rightarrow> string \<Rightarrow> HANDLE \<Rightarrow> string \<Rightarrow> PolicyResult \<Rightarrow> state
   \<Rightarrow> fault + (bool \<times> string \<times> state)" where
  "TryGetReparsePointTarget env fuel path hInput target policyResult s =
     (let chk =
            (case PathCache_GetResolvingCheckResult env path policyResult s of
               Some v \<Rightarrow> (v, s)
             | None \<Rightarrow>
                 (let r = IsReparsePoint env (Some path) hInput s
                  in (fst r, PathCache_InsertResolvingCheckResult env path (fst r) policyResult
                               (snd r))));
          isReparsePoint = fst chk;
          s = snd chk
      in if \<not> isReparsePoint then Inr (False, target, s)
         else
           (let lastError = LastError s
            in case PathCache_GetResolvedPathAndType env path policyResult s of
                 Some io_result \<Rightarrow>
                   (if snd io_result = 0x0
                    then Inr (TryGetReparsePointTarget_Epilogue env None hInput lastError False
                                (fst io_result) s)
                    else Inr (TryGetReparsePointTarget_Epilogue env None hInput lastError True
                                (fst io_result) s))
               | None \<Rightarrow>
                   (let opened =
                          (case hInput of
                             Some h \<Rightarrow> (Some h, s)
                           | None \<Rightarrow>
                               (fst (CreateFileW env path),
                                os_call (Ev_CreateFileW path) (snd (CreateFileW env path)) s));
                        hFile = fst opened;
                        s = snd opened
                    in case hFile of
                         None \<Rightarrow>
                           Inr (TryGetReparsePointTarget_Error env path hFile hInput lastError
                                  target policyResult s)
                       | Some h \<Rightarrow>
                           (case reparse_query_loop env fuel h
                                   INITIAL_REPARSE_DATA_BUILDXL_DETOURS_BUFFER_SIZE_FOR_FILE_NAMES
                                   ERROR_INSUFFICIENT_BUFFER zero_buffer s of
                              Inl f \<Rightarrow> Inl f
                            | Inr q \<Rightarrow>
                                (let errorCode = fst q;
                                     pReparseDataBuffer = fst (snd q);
                                     s = snd (snd q)
                                 in if errorCode \<noteq> ERROR_SUCCESS then
                                      Inr (TryGetReparsePointTarget_Error env path hFile hInput
                                             lastError target policyResult s)
                                    else if \<not> IsActionableReparsePointType
                                                (ReparseTag pReparseDataBuffer) then
                                      Inr (TryGetReparsePointTarget_Error env path hFile hInput
                                             lastError target policyResult s)
                                    else
                                      (let reparsePointType = ReparseTag pReparseDataBuffer;
                                           target = GetTargetNameFromReparseData
                                                      pReparseDataBuffer reparsePointType target;
                                           s = PathCache_InsertResolvedPathWithType env path
                                                 target reparsePointType policyResult s
                                       in Inr (TryGetReparsePointTarget_Epilogue env hFile hInput
                                                 lastError True target s)))))))"

text \<open>
  The value that \<open>TryGetReparsePointTarget\<close> computes for its local variable
  \<open>isReparsePoint\<close>: the memoized check result if there is one, else the answer of
  \<open>IsReparsePoint\<close>.
\<close>

definition TryGetReparsePointTarget_isReparsePoint ::
  "env \<Rightarrow> string \<Rightarrow> HANDLE \<Rightarrow> PolicyResult \<Rightarrow> state \<Rightarrow> bool" where
  "TryGetReparsePointTarget_isReparsePoint env path hInput policyResult s =
     (case PathCache_GetResolvingCheckResult env path policyResult s of
        Some v \<Rightarrow> v
      | None \<Rightarrow> fst (IsReparsePoint env (Some path) hInput s))"

section \<open>Symlink traversal utilities (DetouredFunctions.cpp)\<close>

subsection \<open>SplitPathsReverse\<close>

text \<open>The inner loop: move \<open>i\<close> down to a separator, but not below the root.\<close>

fun scan_separator :: "(char \<Rightarrow> bool) \<Rightarrow> nat \<Rightarrow> string \<Rightarrow> nat \<Rightarrow> nat" where
  "scan_separator sep rootLength dir 0 = 0"
| "scan_separator sep rootLength dir (Suc i) =
     (if rootLength < Suc i \<and> \<not> sep (dir ! Suc i)
      then scan_separator sep rootLength dir i else Suc i)"

text \<open>The outer loop; it returns what is left of \<open>dir\<close> and the atoms.\<close>

function SplitPathsReverse_loop ::
  "(char \<Rightarrow> bool) \<Rightarrow> nat \<Rightarrow> nat \<Rightarrow> string \<Rightarrow> string list \<Rightarrow> string \<times> string list" where
  "SplitPathsReverse_loop sep rootLength i dir atoms =
     (if rootLength \<le> i then
        (if scan_separator sep rootLength dir i = 0 then
           (take 0 dir,
            if rootLength \<le> 0 then atoms @ [drop 0 dir] else atoms)
         else
           SplitPathsReverse_loop sep rootLength (scan_separator sep rootLength dir i - 1)
             (take (scan_separator sep rootLength dir i) dir)
             (if rootLength \<le> scan_separator sep rootLength dir i
              then atoms @ [drop (scan_separator sep rootLength dir i) dir] else atoms))
      else (dir, atoms))"
  by pat_completeness auto
termination
proof (relation "measure (\<lambda>(sep, rootLength, i, dir, atoms). i)")
  show "wf (measure (\<lambda>(sep, rootLength, i, dir, atoms). i))" by simp
next
  fix sep :: "char \<Rightarrow> bool" and rootLength i :: nat and dir :: string and atoms :: "string list"
  assume "scan_separator sep rootLength dir i \<noteq> 0"
  moreover have "scan_separator sep rootLength dir i \<le> i" by (induction i) auto
  ultimately show
    "((sep, rootLength, scan_separator sep rootLength dir i - 1,
       take (scan_separator sep rootLength dir i) dir,
       if rootLength \<le> scan_separator sep rootLength dir i
       then atoms @ [drop (scan_separator sep rootLength dir i) dir] else atoms),
      (sep, rootLength, i, dir, atoms))
     \<in> measure (\<lambda>(sep, rootLength, i, dir, atoms). i)"
    by simp
qed

definition SplitPathsReverse :: "env \<Rightarrow> string \<Rightarrow> string list \<Rightarrow> string list" where
  "SplitPathsReverse env path atoms =
     (let len = length path;
          len = (if 2 \<le> len \<and> IsDirectorySeparator env (path ! (len - 1))
                 then len - 1 else len);
          rootLength = GetRootLength env path
      in if len \<le> rootLength then atoms
         else
           (let r = SplitPathsReverse_loop (IsDirectorySeparator env) rootLength (len - 1)
                      path atoms
            in if fst r \<noteq> [] then snd r @ [fst r] else snd r))"

subsection \<open>TryResolveRelativeTarget, the overload that replaces the last atom\<close>

definition startWithDotSlash :: "string \<Rightarrow> nat \<Rightarrow> nat \<Rightarrow> bool" where
  "startWithDotSlash relativeTarget pos len =
     (2 \<le> len \<and> relativeTarget ! pos = CHR ''.'' \<and> relativeTarget ! (pos + 1) = BACKSLASH)"

definition startWithDotDotSlash :: "string \<Rightarrow> nat \<Rightarrow> nat \<Rightarrow> bool" where
  "startWithDotDotSlash relativeTarget pos len =
     (3 \<le> len \<and> relativeTarget ! pos = CHR ''.'' \<and> relativeTarget ! (pos + 1) = CHR ''.''
      \<and> relativeTarget ! (pos + 2) = BACKSLASH)"

text \<open>
  The loop over the leading \<open>.\<close> and \<open>..\<close> segments of the target. Its state is
  \<open>pos\<close>, \<open>length\<close>, \<open>lastSeparator\<close> and the \<open>processed\<close> atoms (\<open>None\<close> for
  a null pointer); the first component of the result says that the loop left the
  function with \<open>return false\<close>.
\<close>

function resolve_dots ::
  "string \<Rightarrow> string \<Rightarrow> nat \<Rightarrow> nat \<Rightarrow> nat \<Rightarrow> string list option
   \<Rightarrow> bool \<times> nat \<times> nat \<times> nat \<times> string list option" where
  "resolve_dots result relativeTarget pos len lastSeparator processed =
     (if (startWithDotDotSlash relativeTarget pos len \<or> startWithDotSlash relativeTarget pos len)
         \<and> lastSeparator \<noteq> npos then
        (if startWithDotSlash relativeTarget pos len then
           resolve_dots result relativeTarget (pos + 2) (len - 2) lastSeparator processed
         else
           (case processed of
              None \<Rightarrow>
                resolve_dots result relativeTarget (pos + 3) (len - 3)
                  (find_last_of result BACKSLASH (size_t_sub lastSeparator 1)) None
            | Some ps \<Rightarrow>
                if ps \<noteq> [] then
                  (if ps = [] then
                     (True, pos + 3, len - 3,
                      find_last_of result BACKSLASH (size_t_sub lastSeparator 1), Some ps)
                   else
                     resolve_dots result relativeTarget (pos + 3) (len - 3)
                       (find_last_of result BACKSLASH (size_t_sub lastSeparator 1))
                       (Some (butlast ps)))
                else
                  resolve_dots result relativeTarget (pos + 3) (len - 3)
                    (find_last_of result BACKSLASH (size_t_sub lastSeparator 1)) (Some ps)))
      else (False, pos, len, lastSeparator, processed))"
  by pat_completeness auto
termination
  by (relation "measure (\<lambda>(result, relativeTarget, pos, len, lastSeparator, processed). len)")
     (auto simp: startWithDotSlash_def startWithDotDotSlash_def)

text \<open>
  The function itself. \<open>result\<close>, \<open>processed\<close> and \<open>needToBeProcessed\<close> are
  in-out parameters, returned as they are when the function returns. The first read,
  \<open>result[result.length() - 1]\<close>, is out of range for an empty \<open>result\<close>.
\<close>

definition TryResolveRelativeTarget_simple ::
  "env \<Rightarrow> string \<Rightarrow> string \<Rightarrow> string list option \<Rightarrow> string list option
   \<Rightarrow> fault + (bool \<times> string \<times> string list option \<times> string list option)" where
  "TryResolveRelativeTarget_simple env result relativeTarget processed needToBeProcessed =
     (if result = [] then Inl OutOfRange
      else
        (let result = (if last result = BACKSLASH then butlast result else result);
             lastSeparator = find_last_of result BACKSLASH npos
         in if lastSeparator = npos then Inr (False, result, processed, needToBeProcessed)
            else if processed = Some [] then Inr (False, result, processed, needToBeProcessed)
            else
              (let processed = map_option butlast processed;
                   r = resolve_dots result relativeTarget 0 (length relativeTarget)
                         lastSeparator processed;
                   pos = fst (snd r);
                   len = fst (snd (snd r));
                   lastSeparator = fst (snd (snd (snd r)));
                   processed = snd (snd (snd (snd r)))
               in if fst r then Inr (False, result, processed, needToBeProcessed)
                  else if lastSeparator = npos \<and> startWithDotDotSlash relativeTarget pos len
                    then Inr (False, result, processed, needToBeProcessed)
                  else
                    (let slicedTarget = take len (drop pos relativeTarget);
                         result = take (if lastSeparator \<noteq> npos then lastSeparator else 0) result
                     in case needToBeProcessed of
                          Some atoms \<Rightarrow>
                            Inr (True, result, processed,
                                 Some (SplitPathsReverse env slicedTarget atoms))
                        | None \<Rightarrow>
                            Inr (True, result @ [BACKSLASH] @ slicedTarget, processed, None)))))"

subsection \<open>TryResolveRelativeTarget, the overload that resolves the prefixes\<close>

text \<open>
  The loop over the atoms of the path. \<open>result\<close>, \<open>needToBeProcessed\<close> and
  \<open>processed\<close> are its variables. The loop need not end (a directory symlink
  may lead back to a path that contains it), so the second argument counts the iterations
  left; \<open>fuel\<close> is the bound handed on to the loops of the callees. The boolean of the
  result is false when the function has returned false from inside the loop.
  \<open>atom[0]\<close> of an empty atom reads the terminating null character.
\<close>

fun TryResolveRelativeTarget_loop ::
  "env \<Rightarrow> nat \<Rightarrow> nat \<Rightarrow> string \<Rightarrow> string list \<Rightarrow> string list \<Rightarrow> PolicyResult \<Rightarrow> state
   \<Rightarrow> fault + (bool \<times> string \<times> state)" where
  "TryResolveRelativeTarget_loop env fuel 0 result needToBeProcessed processed policyResult s =
     (if needToBeProcessed = [] then Inr (True, result, s) else Inl OutOfFuel)"
| "TryResolveRelativeTarget_loop env fuel (Suc n) result needToBeProcessed processed
     policyResult s =
     (if needToBeProcessed = [] then Inr (True, result, s)
      else
        (let atom = last needToBeProcessed;
             needToBeProcessed = butlast needToBeProcessed;
             processed = processed @ [atom];
             result =
               (if result \<noteq> [] then
                  (if last result \<noteq> BACKSLASH
                      \<and> (case atom of [] \<Rightarrow> CHR 0x00 | c # cs \<Rightarrow> c) \<noteq> BACKSLASH
                   then result @ [BACKSLASH] else result)
                else result);
             result = result @ atom
         in if needToBeProcessed = [] then Inr (True, result, s)
            else
              (let t = GetReparsePointType env result None s
               in if fst t = IO_REPARSE_TAG_SYMLINK then
                    (case TryGetReparsePointTarget env fuel result None [] policyResult (snd t) of
                       Inl f \<Rightarrow> Inl f
                     | Inr g \<Rightarrow>
                         if \<not> fst g then Inr (False, result, snd (snd g))
                         else if 0 < GetRootLength env (fst (snd g)) then
                           TryResolveRelativeTarget_loop env fuel n []
                             (SplitPathsReverse env (fst (snd g)) needToBeProcessed) []
                             policyResult (snd (snd g))
                         else
                           (case TryResolveRelativeTarget_simple env result (fst (snd g))
                                   (Some processed) (Some needToBeProcessed) of
                              Inl f \<Rightarrow> Inl f
                            | Inr c \<Rightarrow>
                                if \<not> fst c then Inr (False, fst (snd c), snd (snd g))
                                else
                                  TryResolveRelativeTarget_loop env fuel n (fst (snd c))
                                    (the (snd (snd (snd c)))) (the (fst (snd (snd c))))
                                    policyResult (snd (snd g))))
                  else
                    TryResolveRelativeTarget_loop env fuel n result needToBeProcessed processed
                      policyResult (snd t))))"

text \<open>\<open>result\<close> is an in-out parameter; the callers pass an empty string.\<close>

definition TryResolveRelativeTarget ::
  "env \<Rightarrow> nat \<Rightarrow> string \<Rightarrow> string \<Rightarrow> string \<Rightarrow> PolicyResult \<Rightarrow> state
   \<Rightarrow> fault + (bool \<times> string \<times> state)" where
  "TryResolveRelativeTarget env fuel path relativeTarget result policyResult s =
     (case TryResolveRelativeTarget_loop env fuel fuel result (SplitPathsReverse env path []) []
             policyResult s of
        Inl f \<Rightarrow> Inl f
      | Inr l \<Rightarrow>
          if \<not> fst l then Inr (False, fst (snd l), snd (snd l))
          else
            (case TryResolveRelativeTarget_simple env (fst (snd l)) relativeTarget None None of
               Inl f \<Rightarrow> Inl f
             | Inr c \<Rightarrow> Inr (fst c, fst (snd c), snd (snd l))))"

subsection \<open>TryGetNextPath\<close>

definition TryGetNextPath ::
  "env \<Rightarrow> nat \<Rightarrow> string \<Rightarrow> HANDLE \<Rightarrow> string \<Rightarrow> PolicyResult \<Rightarrow> state
   \<Rightarrow> fault + (bool \<times> string \<times> state)" where
  "TryGetNextPath env fuel path hInput result policyResult s =
     (case TryGetReparsePointTarget env fuel path hInput [] policyResult s of
        Inl f \<Rightarrow> Inl f
      | Inr g \<Rightarrow>
          if \<not> fst g then Inr (False, result, snd (snd g))
          else if 0 < GetRootLength env (fst (snd g)) then Inr (True, fst (snd g), snd (snd g))
          else TryResolveRelativeTarget env fuel path (fst (snd g)) result policyResult
                 (snd (snd g)))"

subsection \<open>DetourGetFinalPaths\<close>

text \<open>
  The walker. \<open>order\<close> and \<open>finalPaths\<close> are in-out parameters. The loop runs
  until a path has no next path or the next path is already in \<open>order\<close>; the third
  argument counts the iterations left. The warning written on a cycle is recorded in
  the state with the path the walk started from.
\<close>

fun DetourGetFinalPaths_loop ::
  "env \<Rightarrow> nat \<Rightarrow> nat \<Rightarrow> string \<Rightarrow> string \<Rightarrow> HANDLE \<Rightarrow> string list \<Rightarrow> ResolvedPathMap
   \<Rightarrow> PolicyResult \<Rightarrow> state \<Rightarrow> fault + (string list \<times> ResolvedPathMap \<times> state)" where
  "DetourGetFinalPaths_loop env fuel 0 path currentPath handle order finalPaths policyResult s =
     Inl OutOfFuel"
| "DetourGetFinalPaths_loop env fuel (Suc n) path currentPath handle order finalPaths
     policyResult s =
     (case TryGetNextPath env fuel currentPath handle [] policyResult s of
        Inl f \<Rightarrow> Inl f
      | Inr r \<Rightarrow>
          if fst r then
            (if Canonicalize env (fst (snd r)) \<in> set (order @ [currentPath]) then
               Inr (order @ [currentPath], emplace currentPath Intermediate finalPaths,
                    (snd (snd r))\<lparr>warnings := warnings (snd (snd r)) @ [path]\<rparr>)
             else
               DetourGetFinalPaths_loop env fuel n path (Canonicalize env (fst (snd r))) None
                 (order @ [currentPath]) (emplace currentPath Intermediate finalPaths)
                 policyResult (snd (snd r)))
          else
            Inr (order @ [currentPath], emplace currentPath FullyResolved finalPaths,
                 snd (snd r)))"

definition DetourGetFinalPaths ::
  "env \<Rightarrow> nat \<Rightarrow> CanonicalizedPath \<Rightarrow> HANDLE \<Rightarrow> string list \<Rightarrow> ResolvedPathMap
   \<Rightarrow> PolicyResult \<Rightarrow> state \<Rightarrow> fault + (string list \<times> ResolvedPathMap \<times> state)" where
  "DetourGetFinalPaths env fuel path hInput order finalPaths policyResult s =
     DetourGetFinalPaths_loop env fuel fuel (GetPathString path) (GetPathString path) hInput
       order finalPaths policyResult s"

text \<open>
  Statements about a walk name the hops of the chain. \<open>next_path_is\<close> says what
  \<open>TryGetNextPath\<close> followed by the canonicalization makes of a path, whatever the
  state of the process: the next path \<open>q\<close>, or no next path (\<open>None\<close>).
  \<open>follows\<close> says that each path of a list leads to the one after it; the walker
  passes the handle it was given for the first path only.
\<close>

definition next_path_is ::
  "env \<Rightarrow> nat \<Rightarrow> PolicyResult \<Rightarrow> HANDLE \<Rightarrow> string \<Rightarrow> string option \<Rightarrow> bool" where
  "next_path_is env fuel policyResult h p q =
     (\<forall>s. \<exists>r. TryGetNextPath env fuel p h [] policyResult s = Inr r
             \<and> (case q of
                    None \<Rightarrow> \<not> fst r
                  | Some q' \<Rightarrow> fst r \<and> Canonicalize env (fst (snd r)) = q'))"

fun follows :: "env \<Rightarrow> nat \<Rightarrow> PolicyResult \<Rightarrow> HANDLE \<Rightarrow> string list \<Rightarrow> bool" where
  "follows env fuel policyResult h (p # q # ps) =
     (next_path_is env fuel policyResult h p (Some q)
      \<and> follows env fuel policyResult None (q # ps))"
| "follows env fuel policyResult h ps = True"

section \<open>Access enforcer (DetouredFunctions.cpp, DetoursHelpers.cpp)\<close>

definition WantsWriteAccess :: "DWORD \<Rightarrow> bool" where
  "WantsWriteAccess access =
     (access AND (GENERIC_ALL OR GENERIC_WRITE OR DELETE OR FILE_WRITE_DATA
                  OR FILE_WRITE_ATTRIBUTES OR FILE_WRITE_EA OR FILE_APPEND_DATA) \<noteq> 0)"

definition WantsReadAccess :: "DWORD \<Rightarrow> bool" where
  "WantsReadAccess access = (access AND (GENERIC_READ OR FILE_READ_DATA) \<noteq> 0)"

definition WantsProbeOnlyAccess :: "DWORD \<Rightarrow> bool" where
  "WantsProbeOnlyAccess access =
     (\<not> WantsReadAccess access \<and> \<not> WantsWriteAccess access
      \<and> (access = 0 \<or> access AND (FILE_READ_ATTRIBUTES OR FILE_READ_EA) \<noteq> 0))"

definition FlagsAndAttributesContainReparsePointFlag :: "DWORD \<Rightarrow> bool" where
  "FlagsAndAttributesContainReparsePointFlag dwFlagsAndAttributes =
     (dwFlagsAndAttributes AND FILE_FLAG_OPEN_REPARSE_POINT \<noteq> 0)"

definition GetFileAttributesByPath :: "env \<Rightarrow> string option \<Rightarrow> state \<Rightarrow> bool \<times> DWORD \<times> state" where
  "GetFileAttributesByPath env lpFileName s =
     (let lastError = LastError s
      in case lpFileName of
           None \<Rightarrow> (False, INVALID_FILE_ATTRIBUTES, s\<lparr>LastError := lastError\<rparr>)
         | Some name \<Rightarrow>
             (INVALID_FILE_ATTRIBUTES \<noteq> fst (GetFileAttributesW env name),
              fst (GetFileAttributesW env name),
              (os_call (Ev_GetFileAttributesW name) (snd (GetFileAttributesW env name)) s)
                \<lparr>LastError := lastError\<rparr>))"

definition GetFileAttributesByHandle :: "env \<Rightarrow> nat \<Rightarrow> state \<Rightarrow> bool \<times> DWORD \<times> state" where
  "GetFileAttributesByHandle env hFile s =
     (let lastError = LastError s;
          s1 = (os_call (Ev_GetFileInformationByHandle hFile)
                  (snd (GetFileInformationByHandle env hFile)) s)\<lparr>LastError := lastError\<rparr>
      in case fst (GetFileInformationByHandle env hFile) of
           Some dwFileAttributes \<Rightarrow> (True, dwFileAttributes, s1)
         | None \<Rightarrow> (False, INVALID_FILE_ATTRIBUTES, s1))"

definition ShouldTreatDirectoryReparsePointAsFile :: "env \<Rightarrow> DWORD \<Rightarrow> DWORD \<Rightarrow> PolicyResult \<Rightarrow> bool"
  where
  "ShouldTreatDirectoryReparsePointAsFile env dwDesiredAccess dwFlagsAndAttributes policyResult =
     (\<not> IgnoreFullReparsePointResolvingForPath env policyResult
      \<and> (FlagsAndAttributesContainReparsePointFlag dwFlagsAndAttributes
           \<or> WantsWriteAccess dwDesiredAccess)
      \<and> \<not> TreatDirectorySymlinkAsDirectory policyResult
      \<and> (\<not> WantsProbeOnlyAccess dwDesiredAccess \<or> \<not> ProbeDirectorySymlinkAsDirectory env))"

definition IsDirectoryFromAttributes :: "DWORD \<Rightarrow> bool \<Rightarrow> bool" where
  "IsDirectoryFromAttributes attributes treatReparsePointAsFile =
     (let isDirectory = (attributes \<noteq> INVALID_FILE_ATTRIBUTES
                          \<and> attributes AND FILE_ATTRIBUTE_DIRECTORY \<noteq> 0)
      in isDirectory
         \<and> (\<not> treatReparsePointAsFile \<or> attributes AND FILE_ATTRIBUTE_REPARSE_POINT = 0))"

text \<open>
  \<open>IsHandleOrPathToDirectory\<close>, first the overload with the flag, then the one that
  computes the flag from the policy. The out parameter is the second component.
\<close>

definition IsHandleOrPathToDirectory_flag ::
  "env \<Rightarrow> HANDLE \<Rightarrow> string option \<Rightarrow> bool \<Rightarrow> state \<Rightarrow> bool \<times> DWORD \<times> state" where
  "IsHandleOrPathToDirectory_flag env hFile lpFileName treatReparsePointAsFile s =
     (let byHandle =
            (case hFile of
               None \<Rightarrow> (False, INVALID_FILE_ATTRIBUTES, s)
             | Some h \<Rightarrow> GetFileAttributesByHandle env h s);
          byPath =
            (if \<not> fst byHandle then GetFileAttributesByPath env lpFileName (snd (snd byHandle))
             else byHandle)
      in (IsDirectoryFromAttributes (fst (snd byPath)) treatReparsePointAsFile,
          fst (snd byPath), snd (snd byPath)))"

definition IsHandleOrPathToDirectory ::
  "env \<Rightarrow> HANDLE \<Rightarrow> string option \<Rightarrow> DWORD \<Rightarrow> DWORD \<Rightarrow> PolicyResult \<Rightarrow> state
   \<Rightarrow> bool \<times> DWORD \<times> state" where
  "IsHandleOrPathToDirectory env hFile lpFileName dwDesiredAccess dwFlagsAndAttributes
     policyResult s =
     IsHandleOrPathToDirectory_flag env hFile lpFileName
       (ShouldTreatDirectoryReparsePointAsFile env dwDesiredAccess dwFlagsAndAttributes
          policyResult) s"

text \<open>
  \<open>ReportIfNeeded\<close> sends a report only when the access check asks for one.
  \<open>ReportFileAccess\<close> belongs to the reporting collaborator; the call is recorded.
\<close>

definition GetFileAccessStatus :: "AccessCheckResult \<Rightarrow> FileAccessStatus" where
  "GetFileAccessStatus r =
     (if Result r \<noteq> Allow then FileAccessStatus_Denied else FileAccessStatus_Allowed)"

definition ReportIfNeeded ::
  "AccessCheckResult \<Rightarrow> FileOperationContext \<Rightarrow> PolicyResult \<Rightarrow> DWORD \<Rightarrow> state \<Rightarrow> state" where
  "ReportIfNeeded checkResult context policyResult error s =
     (if \<not> ShouldReport checkResult then s
      else s\<lparr>reports := reports s @
                [FileAccessReport context (GetFileAccessStatus checkResult) checkResult error]\<rparr>)"

text \<open>
  Modelled from the spec: \<open>PolicyResult::ReportIndeterminatePolicyAndSetLastError\<close> is
  not among the translated sources. An indeterminate policy is reported once with its
  own status and the call is denied: the report is recorded and the last error becomes
  \<open>ERROR_ACCESS_DENIED\<close>.
\<close>

definition ReportIndeterminatePolicyAndSetLastError :: "FileOperationContext \<Rightarrow> state \<Rightarrow> state"
  where
  "ReportIndeterminatePolicyAndSetLastError context s =
     s\<lparr>reports := reports s @ [IndeterminatePolicyReport context],
       LastError := ERROR_ACCESS_DENIED\<rparr>"

text \<open>
  The operation context that \<open>EnforceReparsePointAccess\<close> constructs. (The
  identifiers \<open>Id\<close> and \<open>CorrelationId\<close> of the context are left out.)
\<close>

definition EnforceReparsePointAccess_opContext ::
  "string \<Rightarrow> DWORD \<Rightarrow> DWORD \<Rightarrow> DWORD \<Rightarrow> DWORD \<Rightarrow> bool \<Rightarrow> string \<Rightarrow> FileOperationContext"
  where
  "EnforceReparsePointAccess_opContext contextOperationName dwDesiredAccess dwShareMode
     dwCreationDisposition dwFlagsAndAttributes isFullyResolvedPath lpReparsePointPath =
     \<lparr>Operation = contextOperationName,
      NoncanonicalPath = lpReparsePointPath,
      DesiredAccess = (if isFullyResolvedPath then dwDesiredAccess else GENERIC_READ),
      ShareMode = (if isFullyResolvedPath then dwShareMode
                   else FILE_SHARE_READ OR FILE_SHARE_DELETE OR FILE_SHARE_WRITE),
      CreationDisposition = (if isFullyResolvedPath then dwCreationDisposition
                             else OPEN_EXISTING),
      FlagsAndAttributes = (if isFullyResolvedPath then dwFlagsAndAttributes
                            else FILE_FLAG_OPEN_REPARSE_POINT OR FILE_FLAG_BACKUP_SEMANTICS),
      OpenedFileOrDirectoryAttributes = INVALID_FILE_ATTRIBUTES\<rparr>"

text \<open>
  The part of \<open>EnforceReparsePointAccess\<close> under \<open>if (enforceAccess)\<close> up to the
  computation of the access check; it also fills in the attributes of the context.
\<close>

definition EnforceReparsePointAccess_check ::
  "env \<Rightarrow> string \<Rightarrow> bool \<Rightarrow> FileOperationContext \<Rightarrow> PolicyResult \<Rightarrow> state
   \<Rightarrow> AccessCheckResult \<times> FileOperationContext \<times> state" where
  "EnforceReparsePointAccess_check env lpReparsePointPath isCreateDirectory opContext
     policyResult s =
     (let accessCheck = AccessCheckResult3 RequestedAccess_None Allow Ignore;
          accessCheck =
            (if WantsWriteAccess (DesiredAccess opContext) then
               (if isCreateDirectory then CheckCreateDirectoryAccess policyResult
                else CheckWriteAccess policyResult)
             else accessCheck)
      in if WantsReadAccess (DesiredAccess opContext)
            \<or> WantsProbeOnlyAccess (DesiredAccess opContext) then
           (let d = IsHandleOrPathToDirectory env None (Some lpReparsePointPath)
                      (DesiredAccess opContext) (FlagsAndAttributes opContext) policyResult s;
                opContext = opContext\<lparr>OpenedFileOrDirectoryAttributes := fst (snd d)\<rparr>;
                s1 = os_call (Ev_GetFileAttributesW lpReparsePointPath)
                       (snd (GetFileAttributesW env lpReparsePointPath)) (snd (snd d));
                readContext =
                  \<lparr>Existence =
                     (if fst (GetFileAttributesW env lpReparsePointPath) \<noteq> INVALID_FILE_ATTRIBUTES
                      then Existent else Nonexistent),
                   OpenedDirectory = fst d\<rparr>
            in (Combine accessCheck
                  (CheckReadAccess policyResult
                     (if WantsProbeOnlyAccess (DesiredAccess opContext) then ReadAccess_Probe
                      else ReadAccess_Read)
                     readContext),
                opContext, s1))
         else (accessCheck, opContext, s))"

text \<open>
  \<open>EnforceReparsePointAccess\<close>. \<open>pNtStatus\<close> is a pointer that may be null
  (\<open>None\<close>); the value it points to is returned as the second component.
\<close>

definition EnforceReparsePointAccess ::
  "env \<Rightarrow> string \<Rightarrow> DWORD \<Rightarrow> DWORD \<Rightarrow> DWORD \<Rightarrow> DWORD \<Rightarrow> DWORD option \<Rightarrow> bool \<Rightarrow> bool \<Rightarrow> bool
   \<Rightarrow> string \<Rightarrow> state \<Rightarrow> bool \<times> DWORD option \<times> state" where
  "EnforceReparsePointAccess env reparsePointPath dwDesiredAccess dwShareMode
     dwCreationDisposition dwFlagsAndAttributes pNtStatus enforceAccess isCreateDirectory
     isFullyResolvedPath contextOperationName s =
     (let lastError = LastError s;
          opContext = EnforceReparsePointAccess_opContext contextOperationName dwDesiredAccess
                        dwShareMode dwCreationDisposition dwFlagsAndAttributes
                        isFullyResolvedPath reparsePointPath
      in case PolicyInitialize env reparsePointPath of
           None \<Rightarrow>
             (False, pNtStatus,
              (ReportIndeterminatePolicyAndSetLastError opContext s)\<lparr>LastError := lastError\<rparr>)
         | Some policyResult \<Rightarrow>
             (if enforceAccess then
                (let c = EnforceReparsePointAccess_check env reparsePointPath isCreateDirectory
                           opContext policyResult s;
                     accessCheck = fst c;
                     opContext = fst (snd c);
                     s1 = snd (snd c)
                 in if ShouldDenyAccess accessCheck then
                      (False,
                       (case pNtStatus of None \<Rightarrow> None
                        | Some v \<Rightarrow> Some (DenialNtStatus accessCheck)),
                       (ReportIfNeeded accessCheck opContext policyResult
                          (DenialError accessCheck) s1)\<lparr>LastError := DenialError accessCheck\<rparr>)
                    else
                      (True, pNtStatus,
                       (ReportIfNeeded accessCheck opContext policyResult lastError s1)
                         \<lparr>LastError := lastError\<rparr>))
              else
                (True, pNtStatus,
                 (ReportIfNeeded (AccessCheckResult3 RequestedAccess_None Allow Ignore) opContext
                    policyResult lastError s)\<lparr>LastError := lastError\<rparr>)))"









text \<open>
  Vocabulary for statements about enforcement: the operation context a report carries,
  and whether the loop enforces a hop of the given type at all (it skips the fully
  resolved hop when full resolving applies to the path and the caller does not want the
  resolved path enforced).
\<close>

fun report_context :: "report \<Rightarrow> FileOperationContext" where
  "report_context (FileAccessReport context status checkResult error) = context"
| "report_context (IndeterminatePolicyReport context) = context"





section \<open>A file system for concrete runs\<close>

text \<open>
  Modelled from the spec: \<open>GetRootLength\<close> and \<open>IsDirectorySeparator\<close> are declared
  in a header that is not among the translated sources. For the concrete runs below the
  root of a path is a drive letter with its colon and the separator after it, or a
  single leading separator, and a separator is a backslash or a slash.
\<close>

definition GetRootLength_drive :: "string \<Rightarrow> nat" where
  "GetRootLength_drive p =
     (if 2 \<le> length p \<and> p ! 1 = CHR '':'' then
        (if 3 \<le> length p \<and> (p ! 2 = BACKSLASH \<or> p ! 2 = CHR ''/'') then 3 else 2)
      else if 1 \<le> length p \<and> (p ! 0 = BACKSLASH \<or> p ! 0 = CHR ''/'') then 1
      else 0)"

text \<open>
  For the concrete runs \<open>_wsplitpath_s\<close> splits off a drive letter with its colon,
  then the directory up to and including the last separator, and of what is left the
  extension from its last dot on.
\<close>

definition wsplitpath_drive :: "string \<Rightarrow> string \<times> string \<times> string \<times> string" where
  "wsplitpath_drive p =
     (let drive = (if 2 \<le> length p \<and> p ! 1 = CHR '':'' then take 2 p else []);
          rest = drop (length drive) p;
          cut = length rest
                - length (takeWhile (\<lambda>c. c \<noteq> BACKSLASH \<and> c \<noteq> CHR ''/'') (rev rest));
          base = drop cut rest;
          dot = (if CHR ''.'' \<in> set base
                 then length base - Suc (length (takeWhile (\<lambda>c. c \<noteq> CHR ''.'') (rev base)))
                 else length base)
      in (drive, take cut rest, take dot base, drop dot base))"

text \<open>
  A file system given by its reparse points: a list of (path, reparse tag, target).
  Every other path is a plain file. The handle of a reparse point is its position in
  the list. Opening a file clears the last error, and a failing call sets it. Paths are
  taken to be canonical already, no path is among the path translations of the
  manifest, and splitting and canonicalizing a path never fail.
\<close>

definition link_index :: "(string \<times> DWORD \<times> string) list \<Rightarrow> string \<Rightarrow> nat" where
  "link_index links p = length (takeWhile (\<lambda>l. fst l \<noteq> p) links)"

definition fixture_env ::
  "bool \<Rightarrow> (string \<times> DWORD \<times> string) list \<Rightarrow> (string \<Rightarrow> PolicyResult option) \<Rightarrow> env" where
  "fixture_env ignoreFull links policy =
     \<lparr>IgnoreReparsePoints = False, IgnoreFullReparsePointResolving = ignoreFull,
      MonitorNtCreateFile = True, ProbeDirectorySymlinkAsDirectory = True,
      IsDirectorySeparator = (\<lambda>c. c = BACKSLASH \<or> c = CHR ''/''),
      GetRootLength = GetRootLength_drive,
      Canonicalize = (\<lambda>p. p),
      CanonicalizeWithoutTypePrefix = (\<lambda>p. p),
      GetPathWithoutPrefix = (\<lambda>p. p),
      ManifestTranslatePathLookupTable = {},
      wsplitpath_s = (\<lambda>p. Some (wsplitpath_drive p)),
      PathCchCanonicalizeEx = (\<lambda>p. Some p),
      GetFileInformationByHandle = (\<lambda>h. (None, Some 6)),
      GetFileAttributesW =
        (\<lambda>p. if link_index links p < length links then (FILE_ATTRIBUTE_REPARSE_POINT, None)
             else (FILE_ATTRIBUTE_NORMAL, None)),
      FindFirstFileW =
        (\<lambda>p. if link_index links p < length links
             then (Some (fst (snd (links ! link_index links p))), None)
             else (Some 0, None)),
      FindClose = None,
      CreateFileW =
        (\<lambda>p. if link_index links p < length links then (Some (link_index links p), Some 0)
             else (None, Some 2)),
      DeviceIoControl =
        (\<lambda>h n. if h < length links
               then (Some \<lparr>ReparseTag = fst (snd (links ! h)),
                            PrintName = snd (snd (links ! h)),
                            SubstituteName = snd (snd (links ! h))\<rparr>, None)
               else (None, Some 6)),
      CloseHandle = (\<lambda>h. None),
      PolicyInitialize = policy\<rparr>"

definition initial_state :: state where
  "initial_state =
     \<lparr>LastError = 87, ResolvingCheckResults = Map.empty, ResolvedPathsAndTypes = Map.empty,
      ResolvedPaths = Map.empty, calls = [], reports = [], warnings = []\<rparr>"

text \<open>A policy that allows every access; its last argument is the report level.\<close>

definition allow_policy :: "bool \<Rightarrow> ReportLevel \<Rightarrow> PolicyResult" where
  "allow_policy enableFull level =
     \<lparr>EnableFullReparsePointParsing = enableFull,
      FindLowestConsecutiveLevelThatStillHasProperty = (\<lambda>p. 0),
      TreatDirectorySymlinkAsDirectory = False,
      CheckCreateDirectoryAccess = AccessCheckResult3 RequestedAccess_Write Allow level,
      CheckWriteAccess = AccessCheckResult3 RequestedAccess_Write Allow level,
      CheckReadAccess = (\<lambda>a c. AccessCheckResult3 RequestedAccess_Read Allow level)\<rparr>"

text \<open>A policy that denies every access and asks for a report.\<close>

definition deny_policy :: "bool \<Rightarrow> PolicyResult" where
  "deny_policy enableFull =
     \<lparr>EnableFullReparsePointParsing = enableFull,
      FindLowestConsecutiveLevelThatStillHasProperty = (\<lambda>p. 0),
      TreatDirectorySymlinkAsDirectory = False,
      CheckCreateDirectoryAccess = AccessCheckResult3 RequestedAccess_Write Deny Report,
      CheckWriteAccess = AccessCheckResult3 RequestedAccess_Write Deny Report,
      CheckReadAccess = (\<lambda>a c. AccessCheckResult3 RequestedAccess_Read Deny Report)\<rparr>"

text \<open>
  The layout of the comment above \<open>TryResolveRelativeTarget\<close>: the two links below
  \<open>repo/intermediate/current\<close>, reachable through \<open>repo/source\<close> as well, where
  \<open>repo/source\<close> points to \<open>intermediate/current\<close> with the given reparse tag.
\<close>

definition repo_layout :: "DWORD \<Rightarrow> (string \<times> DWORD \<times> string) list" where
  "repo_layout sourceTag =
     [(winpath ''repo/source'', sourceTag, winpath ''intermediate/current''),
      (winpath ''repo/source/symlink1.link'', IO_REPARSE_TAG_SYMLINK,
       winpath ''../../target/file1.txt''),
      (winpath ''repo/source/symlink2.link'', IO_REPARSE_TAG_SYMLINK,
       winpath ''../target/file2.txt''),
      (winpath ''repo/intermediate/current/symlink1.link'', IO_REPARSE_TAG_SYMLINK,
       winpath ''../../target/file1.txt''),
      (winpath ''repo/intermediate/current/symlink2.link'', IO_REPARSE_TAG_SYMLINK,
       winpath ''../target/file2.txt'')]"

definition repo_env :: "DWORD \<Rightarrow> env" where
  "repo_env sourceTag = fixture_env False (repo_layout sourceTag) (\<lambda>p. None)"

text \<open>
  Two small file systems with absolute targets, used with the cache switched off (the
  mode in which \<open>DetourGetFinalPaths\<close> is called): a chain from \<open>C:/a\<close> over
  \<open>C:/b\<close> to the plain file \<open>C:/c\<close>, and a cycle between \<open>C:/a\<close> and
  \<open>C:/b\<close>.
\<close>

definition chain_links :: "(string \<times> DWORD \<times> string) list" where
  "chain_links =
     [(winpath ''C:/a'', IO_REPARSE_TAG_SYMLINK, winpath ''C:/b''),
      (winpath ''C:/b'', IO_REPARSE_TAG_SYMLINK, winpath ''C:/c'')]"

definition cycle_links :: "(string \<times> DWORD \<times> string) list" where
  "cycle_links =
     [(winpath ''C:/a'', IO_REPARSE_TAG_SYMLINK, winpath ''C:/b''),
      (winpath ''C:/b'', IO_REPARSE_TAG_SYMLINK, winpath ''C:/a'')]"

text \<open>
  Policies for the chain: \<open>C:/b\<close> is denied, the other paths are allowed; the
  argument is the report level of the allowed accesses to \<open>C:/a\<close>, the accesses to
  the other paths are reported.
\<close>

definition chain_policy :: "ReportLevel \<Rightarrow> string \<Rightarrow> PolicyResult option" where
  "chain_policy level p =
     (if p = winpath ''C:/a'' then Some (allow_policy False level)
      else if p = winpath ''C:/b'' then Some (deny_policy False)
      else Some (allow_policy False Report))"

definition enforced_chain_env :: "ReportLevel \<Rightarrow> env" where
  "enforced_chain_env level = fixture_env True chain_links (chain_policy level)"

text \<open>The same chain with the cache in use.\<close>

definition cached_chain_env :: "ReportLevel \<Rightarrow> env" where
  "cached_chain_env level = fixture_env False chain_links (chain_policy level)"

definition chain_env :: env where
  "chain_env = fixture_env True chain_links (\<lambda>p. None)"

definition cycle_env :: env where
  "cycle_env = fixture_env True cycle_links (\<lambda>p. None)"

text \<open>
  A file system with one reparse point that is neither a symbolic link nor a mount
  point: \<open>C:/p\<close> carries the tag of a cloud placeholder. The cache is in use.
\<close>

definition placeholder_links :: "(string \<times> DWORD \<times> string) list" where
  "placeholder_links = [(winpath ''C:/p'', 0x9000001A, [])]"

definition placeholder_env :: env where
  "placeholder_env = fixture_env False placeholder_links (\<lambda>p. None)"

text \<open>
  A chain whose last path differs from its first only in letter case: \<open>C:/a\<close> leads
  to \<open>C:/b\<close>, which leads to the plain file \<open>c:/A\<close>.
\<close>

definition case_links :: "(string \<times> DWORD \<times> string) list" where
  "case_links =
     [(winpath ''C:/a'', IO_REPARSE_TAG_SYMLINK, winpath ''C:/b''),
      (winpath ''C:/b'', IO_REPARSE_TAG_SYMLINK, winpath ''c:/A'')]"

definition case_env :: env where
  "case_env = fixture_env True case_links (\<lambda>p. None)"

text \<open>
  A policy that allows and reports reads and denies writes, and the chain from
  \<open>C:/a\<close> with this policy on every path.
\<close>

definition readonly_policy :: PolicyResult where
  "readonly_policy =
     \<lparr>EnableFullReparsePointParsing = False,
      FindLowestConsecutiveLevelThatStillHasProperty = (\<lambda>p. 0),
      TreatDirectorySymlinkAsDirectory = False,
      CheckCreateDirectoryAccess = AccessCheckResult3 RequestedAccess_Write Deny Report,
      CheckWriteAccess = AccessCheckResult3 RequestedAccess_Write Deny Report,
      CheckReadAccess = (\<lambda>a c. AccessCheckResult3 RequestedAccess_Read Allow Report)\<rparr>"

definition readonly_chain_env :: env where
  "readonly_chain_env = fixture_env True chain_links (\<lambda>p. Some readonly_policy)"

section \<open>Properties\<close>

text \<open>
  C9. Combine merges two access check results by taking the most restrictive value of
  each component: the action is Deny if either operand is Deny, else Warn if either is
  Warn, else Allow; the report level is ReportExplicit if either is ReportExplicit, else
  Report if either is Report, else Ignore; the path validity is Invalid if either is
  Invalid, else PathComponentNotFound if either is, else Valid.
\<close>

theorem Combine_most_restrictive:
  "Result (Combine l r) =
     (if Result l = Deny \<or> Result r = Deny then Deny
      else if Result l = Warn \<or> Result r = Warn then Warn else Allow)
   \<and> Level (Combine l r) =
     (if Level l = ReportExplicit \<or> Level r = ReportExplicit then ReportExplicit
      else if Level l = Report \<or> Level r = Report then Report else Ignore)
   \<and> Validity (Combine l r) =
     (if Validity l = Invalid \<or> Validity r = Invalid then Invalid
      else if Validity l = PathComponentNotFound \<or> Validity r = PathComponentNotFound
        then PathComponentNotFound
      else Valid)"
proof (intro conjI)
  show "Result (Combine l r) =
     (if Result l = Deny \<or> Result r = Deny then Deny
      else if Result l = Warn \<or> Result r = Warn then Warn else Allow)"
    by (cases "Result l"; cases "Result r") (simp_all add: Combine_def Let_def)
  show "Level (Combine l r) =
     (if Level l = ReportExplicit \<or> Level r = ReportExplicit then ReportExplicit
      else if Level l = Report \<or> Level r = Report then Report else Ignore)"
    by (cases "Level l"; cases "Level r") (simp_all add: Combine_def Let_def)
  show "Validity (Combine l r) =
     (if Validity l = Invalid \<or> Validity r = Invalid then Invalid
      else if Validity l = PathComponentNotFound \<or> Validity r = PathComponentNotFound
        then PathComponentNotFound
      else Valid)"
    by (cases "Validity l"; cases "Validity r") (simp_all add: Combine_def Let_def)
qed


subsection \<open>Evaluation of concrete runs\<close>

lemmas fixture_eval =
  repo_env_def fixture_env_def repo_layout_def winpath_def BACKSLASH_def link_index_def
  GetRootLength_drive_def initial_state_def allow_policy_def deny_policy_def
  chain_env_def cycle_env_def chain_links_def cycle_links_def
  chain_policy_def enforced_chain_env_def cached_chain_env_def
  placeholder_links_def placeholder_env_def case_links_def case_env_def

lemmas reader_eval =
  TryGetReparsePointTarget_def GetReparsePointType_def IsReparsePoint_def
  TryGetReparsePointTarget_Epilogue_def TryGetReparsePointTarget_Error_def
  PathCache_GetResolvingCheckResult_def PathCache_InsertResolvingCheckResult_def
  PathCache_GetResolvedPathAndType_def PathCache_InsertResolvedPathWithType_def
  ResolvedPathCache_GetResolvingCheckResult_def ResolvedPathCache_InsertResolvingCheckResult_def
  ResolvedPathCache_GetResolvedPathAndType_def ResolvedPathCache_InsertResolvedPathWithType_def
  cache_key_def towlower_def
  IgnoreFullReparsePointResolvingForPath_def os_call_def
  IsActionableReparsePointType_def GetTargetNameFromReparseData_def
  IO_REPARSE_TAG_SYMLINK_def IO_REPARSE_TAG_MOUNT_POINT_def FILE_ATTRIBUTE_REPARSE_POINT_def
  FILE_ATTRIBUTE_NORMAL_def INVALID_FILE_ATTRIBUTES_def ERROR_SUCCESS_def ERROR_MORE_DATA_def
  ERROR_INSUFFICIENT_BUFFER_def INITIAL_REPARSE_DATA_BUILDXL_DETOURS_BUFFER_SIZE_FOR_FILE_NAMES_def
  zero_buffer_def Let_def

lemmas resolver_eval =
  TryGetNextPath_def TryResolveRelativeTarget_def TryResolveRelativeTarget_simple_def
  SplitPathsReverse_def find_last_of_def npos_def size_t_sub_def startWithDotSlash_def
  startWithDotDotSlash_def

subsection \<open>Relative targets below a directory symlink and below a junction\<close>

lemma symlink_case_resolver:
  "map_sum id (\<lambda>r. (fst r, fst (snd r)))
     (TryResolveRelativeTarget (repo_env IO_REPARSE_TAG_SYMLINK)
        (Suc (Suc (Suc (Suc (Suc 0))))) (winpath ''repo/source/symlink1.link'')
        (winpath ''../../target/file1.txt'') [] (allow_policy True Ignore) initial_state)
   = Inr (True, winpath ''repo/target/file1.txt'')"
  by (simp add: fixture_eval reader_eval resolver_eval)

lemma symlink_case_prefix:
  "map_sum id (\<lambda>r. (fst r, fst (snd r)))
     (TryResolveRelativeTarget_loop (repo_env IO_REPARSE_TAG_SYMLINK)
        (Suc (Suc (Suc (Suc (Suc 0))))) (Suc (Suc (Suc (Suc (Suc 0))))) []
        (SplitPathsReverse (repo_env IO_REPARSE_TAG_SYMLINK)
           (winpath ''repo/source/symlink1.link'') [])
        [] (allow_policy True Ignore) initial_state)
   = Inr (True, winpath ''repo/intermediate/current/symlink1.link'')"
  by (simp add: fixture_eval reader_eval resolver_eval)

lemma symlink_case_next_path:
  "map_sum id (\<lambda>r. (fst r, fst (snd r)))
     (TryGetNextPath (repo_env IO_REPARSE_TAG_SYMLINK)
        (Suc (Suc (Suc (Suc (Suc 0))))) (winpath ''repo/source/symlink1.link'') None []
        (allow_policy True Ignore) initial_state)
   = Inr (True, winpath ''repo/target/file1.txt'')"
  by (simp add: fixture_eval reader_eval resolver_eval)

lemma junction_case_resolver:
  "map_sum id (\<lambda>r. (fst r, fst (snd r)))
     (TryResolveRelativeTarget (repo_env IO_REPARSE_TAG_MOUNT_POINT)
        (Suc (Suc (Suc (Suc (Suc 0))))) (winpath ''repo/source/symlink2.link'')
        (winpath ''../target/file2.txt'') [] (allow_policy True Ignore) initial_state)
   = Inr (True, winpath ''repo/target/file2.txt'')"
  by (simp add: fixture_eval reader_eval resolver_eval)

lemma junction_case_prefix:
  "map_sum id (\<lambda>r. (fst r, fst (snd r)))
     (TryResolveRelativeTarget_loop (repo_env IO_REPARSE_TAG_MOUNT_POINT)
        (Suc (Suc (Suc (Suc (Suc 0))))) (Suc (Suc (Suc (Suc (Suc 0))))) []
        (SplitPathsReverse (repo_env IO_REPARSE_TAG_MOUNT_POINT)
           (winpath ''repo/source/symlink2.link'') [])
        [] (allow_policy True Ignore) initial_state)
   = Inr (True, winpath ''repo/source/symlink2.link'')"
  by (simp add: fixture_eval reader_eval resolver_eval)

lemma junction_case_next_path:
  "map_sum id (\<lambda>r. (fst r, fst (snd r)))
     (TryGetNextPath (repo_env IO_REPARSE_TAG_MOUNT_POINT)
        (Suc (Suc (Suc (Suc (Suc 0))))) (winpath ''repo/source/symlink2.link'') None []
        (allow_policy True Ignore) initial_state)
   = Inr (True, winpath ''repo/target/file2.txt'')"
  by (simp add: fixture_eval reader_eval resolver_eval)

text \<open>
  C1. In the layout where \<open>repo/intermediate/current/symlink1.link\<close> has the relative
  target \<open>../../target/file1.txt\<close> and \<open>symlink2.link\<close> has the relative target
  \<open>../target/file2.txt\<close> (every \<open>/\<close> is a backslash): if \<open>repo/source\<close> is a
  directory symlink to \<open>intermediate/current\<close>, resolving
  \<open>repo/source/symlink1.link\<close> substitutes the prefix by its target (the path
  rebuilt by the loop is \<open>repo/intermediate/current/symlink1.link\<close>) and yields
  \<open>repo/target/file1.txt\<close>; if \<open>repo/source\<close> is a junction, resolving
  \<open>repo/source/symlink2.link\<close> leaves the prefix \<open>repo/source\<close> as it is and
  yields \<open>repo/target/file2.txt\<close>. Both hold for \<open>TryResolveRelativeTarget\<close> given
  the link's target and for \<open>TryGetNextPath\<close>, which reads the target itself; the
  run starts from an empty cache.
\<close>

theorem relative_target_symlink_vs_junction:
  "map_sum id (\<lambda>r. (fst r, fst (snd r)))
     (TryResolveRelativeTarget (repo_env IO_REPARSE_TAG_SYMLINK)
        (Suc (Suc (Suc (Suc (Suc 0))))) (winpath ''repo/source/symlink1.link'')
        (winpath ''../../target/file1.txt'') [] (allow_policy True Ignore) initial_state)
   = Inr (True, winpath ''repo/target/file1.txt'')
   \<and> map_sum id (\<lambda>r. (fst r, fst (snd r)))
     (TryResolveRelativeTarget_loop (repo_env IO_REPARSE_TAG_SYMLINK)
        (Suc (Suc (Suc (Suc (Suc 0))))) (Suc (Suc (Suc (Suc (Suc 0))))) []
        (SplitPathsReverse (repo_env IO_REPARSE_TAG_SYMLINK)
           (winpath ''repo/source/symlink1.link'') [])
        [] (allow_policy True Ignore) initial_state)
   = Inr (True, winpath ''repo/intermediate/current/symlink1.link'')
   \<and> map_sum id (\<lambda>r. (fst r, fst (snd r)))
     (TryGetNextPath (repo_env IO_REPARSE_TAG_SYMLINK)
        (Suc (Suc (Suc (Suc (Suc 0))))) (winpath ''repo/source/symlink1.link'') None []
        (allow_policy True Ignore) initial_state)
   = Inr (True, winpath ''repo/target/file1.txt'')
   \<and> map_sum id (\<lambda>r. (fst r, fst (snd r)))
     (TryResolveRelativeTarget (repo_env IO_REPARSE_TAG_MOUNT_POINT)
        (Suc (Suc (Suc (Suc (Suc 0))))) (winpath ''repo/source/symlink2.link'')
        (winpath ''../target/file2.txt'') [] (allow_policy True Ignore) initial_state)
   = Inr (True, winpath ''repo/target/file2.txt'')
   \<and> map_sum id (\<lambda>r. (fst r, fst (snd r)))
     (TryResolveRelativeTarget_loop (repo_env IO_REPARSE_TAG_MOUNT_POINT)
        (Suc (Suc (Suc (Suc (Suc 0))))) (Suc (Suc (Suc (Suc (Suc 0))))) []
        (SplitPathsReverse (repo_env IO_REPARSE_TAG_MOUNT_POINT)
           (winpath ''repo/source/symlink2.link'') [])
        [] (allow_policy True Ignore) initial_state)
   = Inr (True, winpath ''repo/source/symlink2.link'')
   \<and> map_sum id (\<lambda>r. (fst r, fst (snd r)))
     (TryGetNextPath (repo_env IO_REPARSE_TAG_MOUNT_POINT)
        (Suc (Suc (Suc (Suc (Suc 0))))) (winpath ''repo/source/symlink2.link'') None []
        (allow_policy True Ignore) initial_state)
   = Inr (True, winpath ''repo/target/file2.txt'')"
  using symlink_case_resolver symlink_case_prefix symlink_case_next_path
    junction_case_resolver junction_case_prefix junction_case_next_path
  by (intro conjI)

subsection \<open>The composer of relative targets at the root\<close>

text \<open>
  C4. The claim is that a relative target with more leading \<open>..\<close> segments than the
  prefix has ancestors makes the composer return failure, without an index ever
  wrapping around. The code does not do this when the prefix starts with a backslash:
  once \<open>lastSeparator\<close> is 0, \<open>lastSeparator - 1\<close> wraps around to \<open>npos\<close>,
  \<open>find_last_of\<close> then searches the whole prefix again, and the function returns
  success with a path spliced from the wrong place. Here the prefix
  \<open>//?/C:/link\<close> (every \<open>/\<close> a backslash) has four separators and the target
  climbs five levels; the same happens for the prefix \<open>/a\<close> with two levels.
\<close>

theorem TryResolveRelativeTarget_simple_wraps_around:
  "TryResolveRelativeTarget_simple env (winpath ''//?/C:/link'')
     (winpath ''../../../../../x'') None None
   = Inr (True, winpath ''//?/x'', None, None)
   \<and> TryResolveRelativeTarget_simple env (winpath ''/a'') (winpath ''../../x'') None None
   = Inr (True, winpath ''/x'', None, None)"
  by (simp add: resolver_eval winpath_def BACKSLASH_def)

subsection \<open>The last error is left as it was\<close>

lemma IsReparsePoint_LastError:
  "LastError (snd (IsReparsePoint env lpFileName hFile s)) = LastError s"
  by (simp add: IsReparsePoint_def Let_def os_call_def split: option.splits)

lemma IsReparsePoint_memos:
  "ResolvingCheckResults (snd (IsReparsePoint env lpFileName hFile s)) = ResolvingCheckResults s"
  "ResolvedPathsAndTypes (snd (IsReparsePoint env lpFileName hFile s)) = ResolvedPathsAndTypes s"
  by (simp_all add: IsReparsePoint_def Let_def os_call_def split: option.splits)

lemma IsReparsePoint_device_queries:
  "device_queries (snd (IsReparsePoint env lpFileName hFile s)) = device_queries s"
  by (simp add: IsReparsePoint_def Let_def os_call_def device_queries_def is_device_query_def
      split: option.splits)

lemma IsReparsePoint_any_state:
  "fst (IsReparsePoint env lpFileName hFile s) = fst (IsReparsePoint env lpFileName hFile s')"
  by (simp add: IsReparsePoint_def Let_def split: option.splits)

lemma PathCache_InsertResolvingCheckResult_LastError:
  "LastError (PathCache_InsertResolvingCheckResult env path b policyResult s) = LastError s"
  by (simp add: PathCache_InsertResolvingCheckResult_def
      ResolvedPathCache_InsertResolvingCheckResult_def)

lemma PathCache_InsertResolvingCheckResult_frame:
  "calls (PathCache_InsertResolvingCheckResult env path b policyResult s) = calls s"
  "ResolvedPathsAndTypes (PathCache_InsertResolvingCheckResult env path b policyResult s)
     = ResolvedPathsAndTypes s"
  "device_queries (PathCache_InsertResolvingCheckResult env path b policyResult s)
     = device_queries s"
  by (simp_all add: PathCache_InsertResolvingCheckResult_def
      ResolvedPathCache_InsertResolvingCheckResult_def device_queries_def)

lemma PathCache_check_after_insert:
  "PathCache_GetResolvingCheckResult env path policyResult
     (PathCache_InsertResolvingCheckResult env path b policyResult s)
   = (if IgnoreReparsePoints env \<or> IgnoreFullReparsePointResolvingForPath env policyResult
      then None else Some b)"
  by (simp add: PathCache_GetResolvingCheckResult_def PathCache_InsertResolvingCheckResult_def
      ResolvedPathCache_GetResolvingCheckResult_def
      ResolvedPathCache_InsertResolvingCheckResult_def)

lemma Epilogue_LastError:
  "LastError (snd (snd (TryGetReparsePointTarget_Epilogue env hFile hInput lastError status
     target s))) = lastError"
  by (simp add: TryGetReparsePointTarget_Epilogue_def Let_def)

lemma Error_LastError:
  "LastError (snd (snd (TryGetReparsePointTarget_Error env path hFile hInput lastError target
     policyResult s))) = lastError"
  by (simp add: TryGetReparsePointTarget_Error_def Epilogue_LastError)

lemma reparse_query_loop_fault:
  "reparse_query_loop env n h bufferSize errorCode buffer s = Inl f \<Longrightarrow> f = OutOfFuel"
  by (induction n arbitrary: bufferSize errorCode buffer s)
     (auto simp: Let_def split: if_splits option.splits)

lemma TryGetReparsePointTarget_LastError:
  assumes "TryGetReparsePointTarget env fuel path hInput target policyResult s = Inr r"
  shows "LastError (snd (snd r)) = LastError s"
  using assms unfolding TryGetReparsePointTarget_def Let_def
  by (auto simp: Epilogue_LastError Error_LastError IsReparsePoint_LastError
      PathCache_InsertResolvingCheckResult_LastError
      split: if_splits option.splits sum.splits)

lemma TryGetReparsePointTarget_fault:
  assumes "TryGetReparsePointTarget env fuel path hInput target policyResult s = Inl f"
  shows "f = OutOfFuel"
  using assms unfolding TryGetReparsePointTarget_def Let_def
  by (auto split: if_splits option.splits sum.splits dest: reparse_query_loop_fault)

text \<open>
  C10. A call of \<open>IsReparsePoint\<close> leaves the thread's last error as it was, and so
  does every call of \<open>TryGetReparsePointTarget\<close> that returns, on each of its return
  paths; the only way not to return a result is that the query loop has not finished
  within the given number of iterations.
\<close>

theorem last_error_preserved:
  "LastError (snd (IsReparsePoint env lpFileName hFile s)) = LastError s
   \<and> (case TryGetReparsePointTarget env fuel path hInput target policyResult s of
        Inl f \<Rightarrow> f = OutOfFuel
      | Inr r \<Rightarrow> LastError (snd (snd r)) = LastError s)"
  by (auto simp: IsReparsePoint_LastError split: sum.splits
      dest: TryGetReparsePointTarget_LastError TryGetReparsePointTarget_fault)

text \<open>
  A run through the device query: the file is opened (which clears the last error),
  queried and closed, and the last error is 87 as before.
\<close>

theorem last_error_preserved_witness:
  "isl (TryGetReparsePointTarget (repo_env IO_REPARSE_TAG_SYMLINK) (Suc 0)
          (winpath ''repo/source/symlink1.link'') None [] (allow_policy True Ignore)
          initial_state) = False
   \<and> (case TryGetReparsePointTarget (repo_env IO_REPARSE_TAG_SYMLINK) (Suc 0)
              (winpath ''repo/source/symlink1.link'') None [] (allow_policy True Ignore)
              initial_state of
        Inl f \<Rightarrow> f = OutOfFuel
      | Inr r \<Rightarrow> LastError (snd (snd r)) = 87)"
proof -
  have returns: "isl (TryGetReparsePointTarget (repo_env IO_REPARSE_TAG_SYMLINK) (Suc 0)
          (winpath ''repo/source/symlink1.link'') None [] (allow_policy True Ignore)
          initial_state) = False"
    by (simp add: fixture_eval reader_eval)
  have before: "LastError initial_state = 87"
    by (simp add: initial_state_def)
  from last_error_preserved [of "repo_env IO_REPARSE_TAG_SYMLINK" None None initial_state
      "Suc 0" "winpath ''repo/source/symlink1.link''" None "[]" "allow_policy True Ignore"]
  have "case TryGetReparsePointTarget (repo_env IO_REPARSE_TAG_SYMLINK) (Suc 0)
              (winpath ''repo/source/symlink1.link'') None [] (allow_policy True Ignore)
              initial_state of
        Inl f \<Rightarrow> f = OutOfFuel
      | Inr r \<Rightarrow> LastError (snd (snd r)) = LastError initial_state"
    by (rule conjunct2)
  with returns before show ?thesis by (auto split: sum.splits)
qed

subsection \<open>Paths that are not reparse points\<close>

lemma TryGetReparsePointTarget_negative_check:
  assumes "\<not> TryGetReparsePointTarget_isReparsePoint env path hInput policyResult s"
  shows "TryGetReparsePointTarget env fuel path hInput target policyResult s =
     Inr (False, target,
          case PathCache_GetResolvingCheckResult env path policyResult s of
            Some v \<Rightarrow> s
          | None \<Rightarrow> PathCache_InsertResolvingCheckResult env path False policyResult
                      (snd (IsReparsePoint env (Some path) hInput s)))"
  using assms unfolding TryGetReparsePointTarget_def TryGetReparsePointTarget_isReparsePoint_def
    Let_def
  by (auto split: option.splits)

lemma os_call_memos:
  "ResolvingCheckResults (os_call ev e s) = ResolvingCheckResults s"
  "ResolvedPathsAndTypes (os_call ev e s) = ResolvedPathsAndTypes s"
  by (simp_all add: os_call_def)

lemma reparse_query_loop_memos:
  "reparse_query_loop env n h bufferSize errorCode buffer s = Inr q \<Longrightarrow>
   ResolvingCheckResults (snd (snd q)) = ResolvingCheckResults s
   \<and> ResolvedPathsAndTypes (snd (snd q)) = ResolvedPathsAndTypes s"
proof (induction n arbitrary: bufferSize errorCode buffer s)
  case 0
  then show ?case by (auto split: if_splits)
next
  case (Suc n)
  show ?case
  proof (cases "errorCode = ERROR_MORE_DATA \<or> errorCode = ERROR_INSUFFICIENT_BUFFER")
    case False
    with Suc.prems show ?thesis by auto
  next
    case True
    let ?s1 = "os_call (Ev_DeviceIoControl h bufferSize)
                 (snd (DeviceIoControl env h bufferSize)) s"
    show ?thesis
    proof (cases "fst (DeviceIoControl env h bufferSize)")
      case None
      with True Suc.prems
      have "reparse_query_loop env n h (bufferSize * 2) (LastError ?s1) zero_buffer ?s1 = Inr q"
        by (simp add: Let_def)
      from Suc.IH [OF this] show ?thesis by (simp add: os_call_memos)
    next
      case (Some data)
      with True Suc.prems
      have "reparse_query_loop env n h bufferSize ERROR_SUCCESS data ?s1 = Inr q"
        by (simp add: Let_def)
      from Suc.IH [OF this] show ?thesis by (simp add: os_call_memos)
    qed
  qed
qed

lemma Epilogue_memos:
  "ResolvingCheckResults (snd (snd (TryGetReparsePointTarget_Epilogue env hFile hInput
     lastError status target s))) = ResolvingCheckResults s"
  "ResolvedPathsAndTypes (snd (snd (TryGetReparsePointTarget_Epilogue env hFile hInput
     lastError status target s))) = ResolvedPathsAndTypes s"
  "fst (TryGetReparsePointTarget_Epilogue env hFile hInput lastError status target s) = status"
  by (simp_all add: TryGetReparsePointTarget_Epilogue_def Let_def os_call_memos
      split: option.splits)

lemma Error_memos:
  assumes "\<not> (IgnoreReparsePoints env \<or> IgnoreFullReparsePointResolvingForPath env pol)"
  shows "ResolvingCheckResults (snd (snd (TryGetReparsePointTarget_Error env path hFile hInput
     lastError target pol s))) = ResolvingCheckResults s"
  "ResolvedPathsAndTypes (snd (snd (TryGetReparsePointTarget_Error env path hFile hInput
     lastError target pol s))) (cache_key path) = Some (target, 0)"
  "fst (TryGetReparsePointTarget_Error env path hFile hInput lastError target pol s) = False"
  using assms
  by (simp_all add: TryGetReparsePointTarget_Error_def Epilogue_memos
      PathCache_InsertResolvedPathWithType_def ResolvedPathCache_InsertResolvedPathWithType_def)

lemma positive_check_failed_memos:
  assumes on: "\<not> (IgnoreReparsePoints env \<or> IgnoreFullReparsePointResolvingForPath env pol)"
    and isrp: "TryGetReparsePointTarget_isReparsePoint env path hInput pol s"
    and run: "TryGetReparsePointTarget env fuel path hInput target pol s = Inr r"
    and failed: "\<not> fst r"
  shows "ResolvingCheckResults (snd (snd r)) (cache_key path) = Some True
     \<and> (\<exists>tgt. ResolvedPathsAndTypes (snd (snd r)) (cache_key path) = Some (tgt, 0))"
proof -
  define s0 where "s0 =
    (case PathCache_GetResolvingCheckResult env path pol s of
       Some v \<Rightarrow> s
     | None \<Rightarrow> PathCache_InsertResolvingCheckResult env path True pol
                 (snd (IsReparsePoint env (Some path) hInput s)))"
  have chk: "(case PathCache_GetResolvingCheckResult env path pol s of
               Some v \<Rightarrow> (v, s)
             | None \<Rightarrow>
                 (let r = IsReparsePoint env (Some path) hInput s
                  in (fst r, PathCache_InsertResolvingCheckResult env path (fst r) pol
                               (snd r)))) = (True, s0)"
    using isrp
    by (auto simp: s0_def Let_def TryGetReparsePointTarget_isReparsePoint_def
        split: option.splits)
  have c0: "ResolvingCheckResults s0 (cache_key path) = Some True"
    using on isrp
    by (auto simp: s0_def TryGetReparsePointTarget_isReparsePoint_def
        PathCache_GetResolvingCheckResult_def
        ResolvedPathCache_GetResolvingCheckResult_def PathCache_InsertResolvingCheckResult_def
        ResolvedPathCache_InsertResolvingCheckResult_def split: option.splits)
  have get: "PathCache_GetResolvedPathAndType env path pol s0
               = ResolvedPathsAndTypes s0 (cache_key path)"
    using on by (simp add: PathCache_GetResolvedPathAndType_def
        ResolvedPathCache_GetResolvedPathAndType_def)
  note run1 = run [unfolded TryGetReparsePointTarget_def chk]
  note run0 = run1 [unfolded Let_def fst_conv snd_conv get]
  show ?thesis
  proof (cases "ResolvedPathsAndTypes s0 (cache_key path)")
    case (Some io)
    with run0 failed c0 show ?thesis
      by (cases io) (auto simp: Epilogue_memos split: if_splits)
  next
    case None
    show ?thesis
    proof (cases hInput)
      case (Some h)
      with run0 None failed c0 show ?thesis
        using reparse_query_loop_memos [of env fuel h
            INITIAL_REPARSE_DATA_BUILDXL_DETOURS_BUFFER_SIZE_FOR_FILE_NAMES
            ERROR_INSUFFICIENT_BUFFER zero_buffer s0]
        by (auto simp: Epilogue_memos Error_memos [OF on] split: if_splits sum.splits)
    next
      case noh: None
      let ?s = "os_call (Ev_CreateFileW path) (snd (CreateFileW env path)) s0"
      show ?thesis
      proof (cases "fst (CreateFileW env path)")
        case None
        with run0 \<open>ResolvedPathsAndTypes s0 (cache_key path) = None\<close> noh failed c0
        show ?thesis
          by (auto simp: Error_memos [OF on] os_call_memos)
      next
        case (Some h)
        with run0 \<open>ResolvedPathsAndTypes s0 (cache_key path) = None\<close> noh failed c0
        show ?thesis
          using reparse_query_loop_memos [of env fuel h
              INITIAL_REPARSE_DATA_BUILDXL_DETOURS_BUFFER_SIZE_FOR_FILE_NAMES
              ERROR_INSUFFICIENT_BUFFER zero_buffer ?s]
          by (auto simp: Epilogue_memos Error_memos [OF on] os_call_memos
              split: if_splits sum.splits)
      qed
    qed
  qed
qed

lemma type0_memo_hit:
  assumes on: "\<not> (IgnoreReparsePoints env \<or> IgnoreFullReparsePointResolvingForPath env pol)"
    and "ResolvingCheckResults s1 (cache_key path) = Some True"
    and "ResolvedPathsAndTypes s1 (cache_key path) = Some (tgt, 0)"
  shows "TryGetReparsePointTarget env fuel path hInput target2 pol s1
           = Inr (False, tgt, s1\<lparr>LastError := LastError s1\<rparr>)"
  using assms
  by (simp add: TryGetReparsePointTarget_def PathCache_GetResolvingCheckResult_def
      ResolvedPathCache_GetResolvingCheckResult_def PathCache_GetResolvedPathAndType_def
      ResolvedPathCache_GetResolvedPathAndType_def TryGetReparsePointTarget_Epilogue_def)

lemma placeholder_run:
  "TryGetReparsePointTarget placeholder_env (Suc 0) (winpath ''C:/p'') None []
     (allow_policy True Ignore) initial_state
   = Inr (False, [],
          initial_state\<lparr>ResolvingCheckResults := [cache_key (winpath ''C:/p'') \<mapsto> True],
            ResolvedPathsAndTypes := [cache_key (winpath ''C:/p'') \<mapsto> ([], 0)],
            calls := [Ev_GetFileAttributesW (winpath ''C:/p''), Ev_CreateFileW (winpath ''C:/p''),
                      Ev_DeviceIoControl 0 1024, Ev_CloseHandle 0]\<rparr>)"
  by (simp add: fixture_eval reader_eval)

text \<open>
  C3. The claim is that for a path that is not a reparse point
  \<open>TryGetReparsePointTarget\<close> returns false and caches the negative result of type 0,
  so that a second call issues no device query. The code returns false before it
  reaches the target memo: what it memoizes is the negative answer to "is this a
  reparse point", and the memo of targets and types is left as it was. The entry of
  type 0 is written only from the label \<open>Error\<close>, for a path that the function
  takes to be a reparse point. For the plain file \<open>repo/target/file1.txt\<close> the
  target memo has no entry after the call.
\<close>

theorem not_reparse_point_no_type0_memo_counterexample:
  "TryGetReparsePointTarget (repo_env IO_REPARSE_TAG_SYMLINK) (Suc 0)
     (winpath ''repo/target/file1.txt'') None [] (allow_policy True Ignore) initial_state
   = Inr (False, [],
          initial_state\<lparr>ResolvingCheckResults :=
              [cache_key (winpath ''repo/target/file1.txt'') \<mapsto> False],
            calls := [Ev_GetFileAttributesW (winpath ''repo/target/file1.txt'')]\<rparr>)
   \<and> ResolvedPathCache_GetResolvedPathAndType
        (initial_state\<lparr>ResolvingCheckResults :=
              [cache_key (winpath ''repo/target/file1.txt'') \<mapsto> False],
            calls := [Ev_GetFileAttributesW (winpath ''repo/target/file1.txt'')]\<rparr>)
        (winpath ''repo/target/file1.txt'') = None"
  by (simp add: fixture_eval reader_eval)

text \<open>
  C3, amended. \<open>TryGetReparsePointTarget\<close> decides whether the path is a reparse
  point from the memoized check result if there is one, and from \<open>IsReparsePoint\<close>
  otherwise. When this decision is negative, the function returns false without any
  device query and without touching the memo of targets and types; when the cache is
  in use it memoizes the negative decision. A second call on the same path returns false
  again, still without a device query; when the cache is in use it is answered from the
  memo and changes nothing at all.

  The entry of type 0 belongs to the other way of returning false. When the decision is
  positive, the cache is in use and the call returns false (the file cannot be opened,
  the device query fails, or the tag is neither a symbolic link nor a mount point), the
  memo of targets and types holds an entry of type 0 for the path afterwards, and a
  second call returns false from that entry without any call to the operating system:
  the state is left exactly as it was.
\<close>

theorem not_reparse_point_negative_caching:
  "(\<not> TryGetReparsePointTarget_isReparsePoint env path hInput policyResult s
    \<longrightarrow> (\<exists>s1 s2.
     TryGetReparsePointTarget env fuel path hInput target policyResult s = Inr (False, target, s1)
     \<and> device_queries s1 = device_queries s
     \<and> ResolvedPathsAndTypes s1 = ResolvedPathsAndTypes s
     \<and> TryGetReparsePointTarget env fuel path hInput target2 policyResult s1
         = Inr (False, target2, s2)
     \<and> device_queries s2 = device_queries s
     \<and> ResolvedPathsAndTypes s2 = ResolvedPathsAndTypes s
     \<and> (\<not> (IgnoreReparsePoints env \<or> IgnoreFullReparsePointResolvingForPath env policyResult)
          \<longrightarrow> ResolvedPathCache_GetResolvingCheckResult s1 path = Some False \<and> s2 = s1)))
   \<and> (TryGetReparsePointTarget_isReparsePoint env path hInput policyResult s
      \<and> \<not> (IgnoreReparsePoints env \<or> IgnoreFullReparsePointResolvingForPath env policyResult)
      \<and> TryGetReparsePointTarget env fuel path hInput target policyResult s = Inr (False, t, s')
    \<longrightarrow> (\<exists>tgt.
     ResolvedPathCache_GetResolvedPathAndType s' path = Some (tgt, 0)
     \<and> TryGetReparsePointTarget env fuel path hInput target2 policyResult s'
         = Inr (False, tgt, s')))"
proof (intro conjI impI)
  assume a: "\<not> TryGetReparsePointTarget_isReparsePoint env path hInput policyResult s"
  define s1 where "s1 =
    (case PathCache_GetResolvingCheckResult env path policyResult s of
            Some v \<Rightarrow> s
          | None \<Rightarrow> PathCache_InsertResolvingCheckResult env path False policyResult
                      (snd (IsReparsePoint env (Some path) hInput s)))"
  have first: "TryGetReparsePointTarget env fuel path hInput target policyResult s
      = Inr (False, target, s1)"
    unfolding s1_def by (rule TryGetReparsePointTarget_negative_check [OF a])
  have dq1: "device_queries s1 = device_queries s"
    by (simp add: s1_def PathCache_InsertResolvingCheckResult_frame
        IsReparsePoint_device_queries split: option.splits)
  have rp1: "ResolvedPathsAndTypes s1 = ResolvedPathsAndTypes s"
    by (simp add: s1_def PathCache_InsertResolvingCheckResult_frame IsReparsePoint_memos
        split: option.splits)
  have memo1: "PathCache_GetResolvingCheckResult env path policyResult s1 =
      (if IgnoreReparsePoints env \<or> IgnoreFullReparsePointResolvingForPath env policyResult
       then None else Some False)"
  proof (cases "PathCache_GetResolvingCheckResult env path policyResult s")
    case None
    then show ?thesis by (simp add: s1_def PathCache_check_after_insert)
  next
    case (Some v)
    with a have "v = False" by (simp add: TryGetReparsePointTarget_isReparsePoint_def)
    with Some show ?thesis
      by (auto simp: s1_def PathCache_GetResolvingCheckResult_def split: if_splits)
  qed
  have not1: "\<not> TryGetReparsePointTarget_isReparsePoint env path hInput policyResult s1"
  proof (cases "IgnoreReparsePoints env
      \<or> IgnoreFullReparsePointResolvingForPath env policyResult")
    case False
    with memo1 show ?thesis by (simp add: TryGetReparsePointTarget_isReparsePoint_def)
  next
    case True
    then have none: "\<And>x. PathCache_GetResolvingCheckResult env path policyResult x = None"
      by (simp add: PathCache_GetResolvingCheckResult_def)
    with a have "\<not> fst (IsReparsePoint env (Some path) hInput s)"
      by (simp add: TryGetReparsePointTarget_isReparsePoint_def)
    with none IsReparsePoint_any_state [of env "Some path" hInput s1 s] show ?thesis
      by (simp add: TryGetReparsePointTarget_isReparsePoint_def)
  qed
  define s2 where "s2 =
    (case PathCache_GetResolvingCheckResult env path policyResult s1 of
            Some v \<Rightarrow> s1
          | None \<Rightarrow> PathCache_InsertResolvingCheckResult env path False policyResult
                      (snd (IsReparsePoint env (Some path) hInput s1)))"
  have second: "TryGetReparsePointTarget env fuel path hInput target2 policyResult s1
      = Inr (False, target2, s2)"
    unfolding s2_def by (rule TryGetReparsePointTarget_negative_check [OF not1])
  have dq2: "device_queries s2 = device_queries s"
    using dq1
    by (simp add: s2_def PathCache_InsertResolvingCheckResult_frame
        IsReparsePoint_device_queries split: option.splits)
  have rp2: "ResolvedPathsAndTypes s2 = ResolvedPathsAndTypes s"
    using rp1
    by (simp add: s2_def PathCache_InsertResolvingCheckResult_frame IsReparsePoint_memos
        split: option.splits)
  have hit: "\<not> (IgnoreReparsePoints env \<or> IgnoreFullReparsePointResolvingForPath env policyResult)
      \<longrightarrow> ResolvedPathCache_GetResolvingCheckResult s1 path = Some False \<and> s2 = s1"
    using memo1 by (auto simp: s2_def PathCache_GetResolvingCheckResult_def)
  from first dq1 rp1 second dq2 rp2 hit
  show "\<exists>s1 s2.
     TryGetReparsePointTarget env fuel path hInput target policyResult s = Inr (False, target, s1)
     \<and> device_queries s1 = device_queries s
     \<and> ResolvedPathsAndTypes s1 = ResolvedPathsAndTypes s
     \<and> TryGetReparsePointTarget env fuel path hInput target2 policyResult s1
         = Inr (False, target2, s2)
     \<and> device_queries s2 = device_queries s
     \<and> ResolvedPathsAndTypes s2 = ResolvedPathsAndTypes s
     \<and> (\<not> (IgnoreReparsePoints env \<or> IgnoreFullReparsePointResolvingForPath env policyResult)
          \<longrightarrow> ResolvedPathCache_GetResolvingCheckResult s1 path = Some False \<and> s2 = s1)"
    by blast
next
  assume b: "TryGetReparsePointTarget_isReparsePoint env path hInput policyResult s
      \<and> \<not> (IgnoreReparsePoints env \<or> IgnoreFullReparsePointResolvingForPath env policyResult)
      \<and> TryGetReparsePointTarget env fuel path hInput target policyResult s = Inr (False, t, s')"
  then have on: "\<not> (IgnoreReparsePoints env
        \<or> IgnoreFullReparsePointResolvingForPath env policyResult)"
    and isrp: "TryGetReparsePointTarget_isReparsePoint env path hInput policyResult s"
    and run: "TryGetReparsePointTarget env fuel path hInput target policyResult s
                = Inr (False, t, s')"
    by simp_all
  from positive_check_failed_memos [OF on isrp run]
  obtain tgt where c: "ResolvingCheckResults s' (cache_key path) = Some True"
    and m: "ResolvedPathsAndTypes s' (cache_key path) = Some (tgt, 0)"
    by auto
  from type0_memo_hit [OF on c m, of fuel hInput target2] m
  show "\<exists>tgt.
     ResolvedPathCache_GetResolvedPathAndType s' path = Some (tgt, 0)
     \<and> TryGetReparsePointTarget env fuel path hInput target2 policyResult s'
         = Inr (False, tgt, s')"
    by (simp add: ResolvedPathCache_GetResolvedPathAndType_def)
qed

theorem not_reparse_point_negative_caching_witness:
  "\<not> TryGetReparsePointTarget_isReparsePoint (repo_env IO_REPARSE_TAG_SYMLINK)
        (winpath ''repo/target/file1.txt'') None (allow_policy True Ignore) initial_state
   \<and> (\<exists>s1 s2.
     TryGetReparsePointTarget (repo_env IO_REPARSE_TAG_SYMLINK) (Suc 0)
         (winpath ''repo/target/file1.txt'') None [] (allow_policy True Ignore) initial_state
       = Inr (False, [], s1)
     \<and> device_queries s1 = device_queries initial_state
     \<and> ResolvedPathsAndTypes s1 = ResolvedPathsAndTypes initial_state
     \<and> TryGetReparsePointTarget (repo_env IO_REPARSE_TAG_SYMLINK) (Suc 0)
         (winpath ''repo/target/file1.txt'') None [] (allow_policy True Ignore) s1
       = Inr (False, [], s2)
     \<and> device_queries s2 = device_queries initial_state
     \<and> ResolvedPathsAndTypes s2 = ResolvedPathsAndTypes initial_state
     \<and> ResolvedPathCache_GetResolvingCheckResult s1 (winpath ''repo/target/file1.txt'')
          = Some False
     \<and> s2 = s1)
   \<and> TryGetReparsePointTarget_isReparsePoint placeholder_env (winpath ''C:/p'') None
        (allow_policy True Ignore) initial_state
   \<and> IgnoreReparsePoints placeholder_env = False
   \<and> IgnoreFullReparsePointResolvingForPath placeholder_env (allow_policy True Ignore) = False
   \<and> (\<exists>t s' tgt.
     TryGetReparsePointTarget placeholder_env (Suc 0) (winpath ''C:/p'') None []
         (allow_policy True Ignore) initial_state = Inr (False, t, s')
     \<and> device_queries s' = 1
     \<and> ResolvedPathCache_GetResolvedPathAndType s' (winpath ''C:/p'') = Some (tgt, 0)
     \<and> TryGetReparsePointTarget placeholder_env (Suc 0) (winpath ''C:/p'') None []
         (allow_policy True Ignore) s' = Inr (False, tgt, s'))"
proof -
  let ?file = "winpath ''repo/target/file1.txt''"
  let ?pol = "allow_policy True Ignore"
  have h1: "\<not> TryGetReparsePointTarget_isReparsePoint (repo_env IO_REPARSE_TAG_SYMLINK) ?file
              None ?pol initial_state"
    by (simp add: TryGetReparsePointTarget_isReparsePoint_def fixture_eval reader_eval)
  have on: "\<not> (IgnoreReparsePoints (repo_env IO_REPARSE_TAG_SYMLINK)
              \<or> IgnoreFullReparsePointResolvingForPath (repo_env IO_REPARSE_TAG_SYMLINK) ?pol)"
    by (simp add: fixture_eval reader_eval)
  have g1: "IgnoreReparsePoints placeholder_env = False"
    by (simp add: fixture_eval)
  have g2: "IgnoreFullReparsePointResolvingForPath placeholder_env ?pol = False"
    by (simp add: fixture_eval reader_eval)
  have g3: "TryGetReparsePointTarget_isReparsePoint placeholder_env (winpath ''C:/p'') None
              ?pol initial_state"
    by (simp add: TryGetReparsePointTarget_isReparsePoint_def fixture_eval reader_eval)
  from not_reparse_point_negative_caching [of "repo_env IO_REPARSE_TAG_SYMLINK" ?file None ?pol initial_state "Suc 0" "[]" "[]"]
    h1 on
  have part1: "\<exists>s1 s2.
     TryGetReparsePointTarget (repo_env IO_REPARSE_TAG_SYMLINK) (Suc 0) ?file None [] ?pol
         initial_state = Inr (False, [], s1)
     \<and> device_queries s1 = device_queries initial_state
     \<and> ResolvedPathsAndTypes s1 = ResolvedPathsAndTypes initial_state
     \<and> TryGetReparsePointTarget (repo_env IO_REPARSE_TAG_SYMLINK) (Suc 0) ?file None [] ?pol s1
       = Inr (False, [], s2)
     \<and> device_queries s2 = device_queries initial_state
     \<and> ResolvedPathsAndTypes s2 = ResolvedPathsAndTypes initial_state
     \<and> ResolvedPathCache_GetResolvingCheckResult s1 ?file = Some False
     \<and> s2 = s1"
    by blast
  let ?s' = "initial_state\<lparr>ResolvingCheckResults := [cache_key (winpath ''C:/p'') \<mapsto> True],
            ResolvedPathsAndTypes := [cache_key (winpath ''C:/p'') \<mapsto> ([], 0)],
            calls := [Ev_GetFileAttributesW (winpath ''C:/p''), Ev_CreateFileW (winpath ''C:/p''),
                      Ev_DeviceIoControl 0 1024, Ev_CloseHandle 0]\<rparr>"
  have dq: "device_queries ?s' = 1"
    by (simp add: device_queries_def is_device_query_def)
  from not_reparse_point_negative_caching [of placeholder_env "winpath ''C:/p''" None ?pol initial_state "Suc 0" "[]" "[]"
      "[]" ?s'] g1 g2 g3 placeholder_run
  have "\<exists>tgt.
     ResolvedPathCache_GetResolvedPathAndType ?s' (winpath ''C:/p'') = Some (tgt, 0)
     \<and> TryGetReparsePointTarget placeholder_env (Suc 0) (winpath ''C:/p'') None [] ?pol ?s'
         = Inr (False, tgt, ?s')"
    by simp
  with placeholder_run dq have part2: "\<exists>t s' tgt.
     TryGetReparsePointTarget placeholder_env (Suc 0) (winpath ''C:/p'') None [] ?pol
         initial_state = Inr (False, t, s')
     \<and> device_queries s' = 1
     \<and> ResolvedPathCache_GetResolvedPathAndType s' (winpath ''C:/p'') = Some (tgt, 0)
     \<and> TryGetReparsePointTarget placeholder_env (Suc 0) (winpath ''C:/p'') None [] ?pol s'
         = Inr (False, tgt, s')"
    by blast
  from h1 part1 g1 g2 g3 part2 show ?thesis by blast
qed

subsection \<open>The walker: frame lemmas\<close>

lemma IsReparsePoint_warnings:
  "warnings (snd (IsReparsePoint env lpFileName hFile s)) = warnings s"
  by (simp add: IsReparsePoint_def Let_def os_call_def split: option.splits)

lemma GetReparsePointType_warnings:
  "warnings (snd (GetReparsePointType env lpFileName hFile s)) = warnings s"
  by (simp add: GetReparsePointType_def Let_def os_call_def IsReparsePoint_warnings
      split: option.splits)

lemma PathCache_insert_warnings:
  "warnings (PathCache_InsertResolvingCheckResult env path b policyResult s) = warnings s"
  "warnings (PathCache_InsertResolvedPathWithType env path t ty policyResult s) = warnings s"
  by (simp_all add: PathCache_InsertResolvingCheckResult_def
      ResolvedPathCache_InsertResolvingCheckResult_def PathCache_InsertResolvedPathWithType_def
      ResolvedPathCache_InsertResolvedPathWithType_def)

lemma reparse_query_loop_warnings:
  "reparse_query_loop env n h bufferSize errorCode buffer s = Inr q
   \<Longrightarrow> warnings (snd (snd q)) = warnings s"
proof (induction n arbitrary: bufferSize errorCode buffer s)
  case 0
  then show ?case by (auto split: if_splits)
next
  case (Suc n)
  show ?case
  proof (cases "errorCode = ERROR_MORE_DATA \<or> errorCode = ERROR_INSUFFICIENT_BUFFER")
    case False
    with Suc.prems show ?thesis by auto
  next
    case True
    let ?s1 = "os_call (Ev_DeviceIoControl h bufferSize)
                 (snd (DeviceIoControl env h bufferSize)) s"
    have w1: "warnings ?s1 = warnings s" by (simp add: os_call_def)
    show ?thesis
    proof (cases "fst (DeviceIoControl env h bufferSize)")
      case None
      with True Suc.prems
      have "reparse_query_loop env n h (bufferSize * 2) (LastError ?s1) zero_buffer ?s1 = Inr q"
        by (simp add: Let_def)
      from Suc.IH [OF this] w1 show ?thesis by simp
    next
      case (Some data)
      with True Suc.prems
      have "reparse_query_loop env n h bufferSize ERROR_SUCCESS data ?s1 = Inr q"
        by (simp add: Let_def)
      from Suc.IH [OF this] w1 show ?thesis by simp
    qed
  qed
qed

lemma Epilogue_warnings:
  "warnings (snd (snd (TryGetReparsePointTarget_Epilogue env hFile hInput lastError status
     target s))) = warnings s"
  by (simp add: TryGetReparsePointTarget_Epilogue_def Let_def os_call_def split: option.splits)

lemma Error_warnings:
  "warnings (snd (snd (TryGetReparsePointTarget_Error env path hFile hInput lastError target
     policyResult s))) = warnings s"
  by (simp add: TryGetReparsePointTarget_Error_def Epilogue_warnings PathCache_insert_warnings)

lemma os_call_warnings: "warnings (os_call ev e s) = warnings s"
  by (simp add: os_call_def)

lemma TryGetReparsePointTarget_warnings:
  assumes "TryGetReparsePointTarget env fuel path hInput target policyResult s = Inr r"
  shows "warnings (snd (snd r)) = warnings s"
  using assms unfolding TryGetReparsePointTarget_def Let_def
  by (auto simp: Epilogue_warnings Error_warnings IsReparsePoint_warnings
      PathCache_insert_warnings os_call_warnings
      split: if_splits option.splits sum.splits dest!: reparse_query_loop_warnings)

lemma TryResolveRelativeTarget_loop_warnings:
  "TryResolveRelativeTarget_loop env fuel n result needToBeProcessed processed policyResult s
     = Inr r \<Longrightarrow> warnings (snd (snd r)) = warnings s"
proof (induction n arbitrary: result needToBeProcessed processed s)
  case 0
  then show ?case by (auto split: if_splits)
next
  case (Suc n)
  from Suc.prems show ?case
    by (auto simp: Let_def GetReparsePointType_warnings
        split: if_splits sum.splits
        dest!: Suc.IH TryGetReparsePointTarget_warnings)
qed

lemma TryResolveRelativeTarget_warnings:
  "TryResolveRelativeTarget env fuel path relativeTarget result policyResult s = Inr r
   \<Longrightarrow> warnings (snd (snd r)) = warnings s"
  unfolding TryResolveRelativeTarget_def
  by (auto split: sum.splits if_splits dest!: TryResolveRelativeTarget_loop_warnings)

lemma TryGetNextPath_warnings:
  "TryGetNextPath env fuel path hInput result policyResult s = Inr r
   \<Longrightarrow> warnings (snd (snd r)) = warnings s"
  unfolding TryGetNextPath_def
  by (auto split: sum.splits if_splits
      dest!: TryResolveRelativeTarget_warnings TryGetReparsePointTarget_warnings)

subsection \<open>The walker: keys of the resolved-path map\<close>

lemma lexicographical_compare_irrefl:
  "(\<And>x. \<not> lt x x) \<Longrightarrow> \<not> lexicographical_compare lt xs xs"
  by (induction xs) auto

lemma lexicographical_compare_same_key:
  "length xs = length ys \<Longrightarrow>
   (\<not> lexicographical_compare
        (\<lambda>a b. if a = b then False else (of_char (towlower a) :: nat) < of_char (towlower b))
        xs ys
    \<and> \<not> lexicographical_compare
        (\<lambda>a b. if a = b then False else (of_char (towlower a) :: nat) < of_char (towlower b))
        ys xs)
   = (map towlower xs = map towlower ys)"
proof (induction xs ys rule: list_induct2)
  case Nil
  then show ?case by simp
next
  case (Cons x xs y ys)
  show ?case
  proof (cases "towlower x = towlower y")
    case True
    with Cons.IH show ?thesis by simp
  next
    case False
    then have "x \<noteq> y" by auto
    moreover from False have "(of_char (towlower x) :: nat) \<noteq> of_char (towlower y)"
      by simp
    ultimately show ?thesis using False by auto
  qed
qed

lemma same_key_iff: "same_key a b = (cache_key a = cache_key b)"
proof (cases "length a = length b")
  case True
  then have "length (rev b) = length (rev a)" by simp
  from lexicographical_compare_same_key [OF this] True show ?thesis
    by (auto simp: same_key_def CaseInsensitiveStringLessThan_def cache_key_def rev_map [symmetric])
next
  case False
  then have "cache_key a \<noteq> cache_key b"
    by (metis cache_key_def length_map)
  with False show ?thesis
    by (auto simp: same_key_def CaseInsensitiveStringLessThan_def)
qed

lemma same_key_refl: "same_key a a"
  by (simp add: same_key_iff)

lemma map_at_lookup:
  "map_at m k = (case lookup m k of None \<Rightarrow> Inl OutOfRange | Some v \<Rightarrow> Inr v)"
  by (simp add: map_at_def lookup_def split: option.splits)

lemma lookup_None_iff: "(lookup m k = None) = (\<forall>e\<in>set m. \<not> same_key (fst e) k)"
  by (auto simp: lookup_def map_find_def find_None_iff)

lemma lookup_Some_value: "lookup m k = Some v \<Longrightarrow> \<exists>e\<in>set m. snd e = v \<and> same_key (fst e) k"
  by (induction m) (auto simp: lookup_def map_find_def split: if_splits)

lemma find_app:
  "find P (xs @ ys) = (case find P xs of None \<Rightarrow> find P ys | Some x \<Rightarrow> Some x)"
  by (induction xs) auto

lemma lookup_emplace:
  "lookup (emplace k v m) k' =
     (if lookup m k = None then
        (case lookup m k' of Some w \<Rightarrow> Some w
         | None \<Rightarrow> if same_key k k' then Some v else None)
      else lookup m k')"
  by (auto simp: lookup_def emplace_def map_find_def find_app split: option.splits)

lemma set_emplace: "set (emplace k v m) \<subseteq> insert (k, v) (set m)"
  by (auto simp: emplace_def split: option.splits)

lemma lookup_all_Intermediate:
  "\<forall>e\<in>set m. snd e = Intermediate \<Longrightarrow> lookup m k \<noteq> None \<Longrightarrow> lookup m k = Some Intermediate"
  using lookup_Some_value by fastforce

lemma lookup_known_key:
  assumes "fst ` set fp \<subseteq> set order" and "\<forall>p\<in>set order. lookup fp p \<noteq> None"
  shows "(lookup fp cur \<noteq> None) = (\<exists>p\<in>set order. same_key p cur)"
proof
  assume "lookup fp cur \<noteq> None"
  then obtain e where "e \<in> set fp" "same_key (fst e) cur"
    by (auto simp: lookup_None_iff)
  with assms(1) show "\<exists>p\<in>set order. same_key p cur" by auto
next
  assume "\<exists>p\<in>set order. same_key p cur"
  then obtain p where p: "p \<in> set order" "same_key p cur" by auto
  with assms(2) have "lookup fp p \<noteq> None" by auto
  then obtain e where "e \<in> set fp" "same_key (fst e) p"
    by (auto simp: lookup_None_iff)
  with p(2) have "e \<in> set fp" "same_key (fst e) cur" by (auto simp: same_key_iff)
  then show "lookup fp cur \<noteq> None" by (auto simp: lookup_None_iff)
qed

lemma emplace_invariant:
  assumes "\<forall>e\<in>set fp. snd e = Intermediate"
    and "fst ` set fp \<subseteq> set order"
    and "\<forall>p\<in>set order. lookup fp p \<noteq> None"
  shows "\<forall>e\<in>set (emplace cur Intermediate fp). snd e = Intermediate"
    and "fst ` set (emplace cur Intermediate fp) \<subseteq> set (order @ [cur])"
    and "\<forall>p\<in>set (order @ [cur]). lookup (emplace cur Intermediate fp) p \<noteq> None"
proof -
  show "\<forall>e\<in>set (emplace cur Intermediate fp). snd e = Intermediate"
    using assms(1) set_emplace [of cur Intermediate fp] by auto
  show "fst ` set (emplace cur Intermediate fp) \<subseteq> set (order @ [cur])"
    using assms(2) set_emplace [of cur Intermediate fp] by fastforce
  show "\<forall>p\<in>set (order @ [cur]). lookup (emplace cur Intermediate fp) p \<noteq> None"
    using assms(3) by (auto simp: lookup_emplace same_key_refl split: option.splits)
qed

lemma DetourGetFinalPaths_loop_invariant:
  assumes "DetourGetFinalPaths_loop env fuel n path cur h order fp policyResult s
             = Inr (order', fp', s')"
    and "\<forall>e\<in>set fp. snd e = Intermediate"
    and "fst ` set fp \<subseteq> set order"
    and "\<forall>p\<in>set order. lookup fp p \<noteq> None"
    and "distinct order" and "cur \<notin> set order"
  shows "distinct order' \<and> (\<exists>rest. order' = order @ cur # rest)
     \<and> (\<forall>p\<in>set (butlast order'). lookup fp' p = Some Intermediate)
     \<and> (warnings s' \<noteq> warnings s \<longrightarrow>
          warnings s' = warnings s @ [path] \<and> lookup fp' (last order') = Some Intermediate)
     \<and> (warnings s' = warnings s \<longrightarrow>
          lookup fp' (last order') =
            (if \<exists>p\<in>set (butlast order'). same_key p (last order') then Some Intermediate
             else Some FullyResolved))"
  using assms
proof (induction n arbitrary: cur h order fp s)
  case 0
  then show ?case by simp
next
  case (Suc n)
  from Suc.prems(1) obtain r where
    r: "TryGetNextPath env fuel cur h [] policyResult s = Inr r"
    by (auto split: sum.splits)
  have w: "warnings (snd (snd r)) = warnings s"
    by (rule TryGetNextPath_warnings [OF r])
  note inv = emplace_invariant [OF Suc.prems(2,3,4), of cur]
  show ?case
  proof (cases "fst r")
    case False
    with Suc.prems(1) r have res: "order' = order @ [cur]"
      "fp' = emplace cur FullyResolved fp" "s' = snd (snd r)"
      by auto
    have earlier: "\<forall>p\<in>set order. lookup fp' p = Some Intermediate"
    proof
      fix p assume "p \<in> set order"
      with Suc.prems(4) have "lookup fp p \<noteq> None" by auto
      with Suc.prems(2) have "lookup fp p = Some Intermediate"
        by (rule lookup_all_Intermediate)
      then show "lookup fp' p = Some Intermediate"
        by (simp add: res lookup_emplace)
    qed
    have known: "(lookup fp cur \<noteq> None) = (\<exists>p\<in>set order. same_key p cur)"
      by (rule lookup_known_key [OF Suc.prems(3,4)])
    have final: "lookup fp' cur =
        (if \<exists>p\<in>set order. same_key p cur then Some Intermediate else Some FullyResolved)"
    proof (cases "lookup fp cur = None")
      case True
      with known show ?thesis by (simp add: res lookup_emplace same_key_refl)
    next
      case False
      with Suc.prems(2) have "lookup fp cur = Some Intermediate"
        by (intro lookup_all_Intermediate) auto
      with False known show ?thesis by (simp add: res lookup_emplace)
    qed
    from Suc.prems(5,6) earlier final w show ?thesis
      by (simp add: res)
  next
    case True
    show ?thesis
    proof (cases "Canonicalize env (fst (snd r)) \<in> set (order @ [cur])")
      case cyc: True
      with True Suc.prems(1) r have res: "order' = order @ [cur]"
        "fp' = emplace cur Intermediate fp"
        "s' = (snd (snd r))\<lparr>warnings := warnings (snd (snd r)) @ [path]\<rparr>"
        by auto
      have "\<forall>p\<in>set (order @ [cur]). lookup fp' p = Some Intermediate"
        using inv(1,3) unfolding res by (auto intro!: lookup_all_Intermediate)
      with Suc.prems(5,6) w show ?thesis
        by (simp add: res)
    next
      case nocyc: False
      with True Suc.prems(1) r have rec:
        "DetourGetFinalPaths_loop env fuel n path (Canonicalize env (fst (snd r))) None
           (order @ [cur]) (emplace cur Intermediate fp) policyResult (snd (snd r))
         = Inr (order', fp', s')"
        by auto
      have d: "distinct (order @ [cur])" using Suc.prems(5,6) by simp
      from Suc.IH [OF rec inv d nocyc] w show ?thesis by auto
    qed
  qed
qed

subsection \<open>The walker: single steps and runs\<close>

lemmas walker_eval =
  DetourGetFinalPaths_def emplace_def map_find_def map_at_def same_key_iff

lemma next_path_is_Some:
  assumes "next_path_is env fuel policyResult h p (Some q)"
  shows "\<exists>r. TryGetNextPath env fuel p h [] policyResult s = Inr r \<and> fst r
             \<and> Canonicalize env (fst (snd r)) = q"
  using assms unfolding next_path_is_def by simp

lemma next_path_is_None:
  assumes "next_path_is env fuel policyResult h p None"
  shows "\<exists>r. TryGetNextPath env fuel p h [] policyResult s = Inr r \<and> \<not> fst r"
  using assms unfolding next_path_is_def by simp

lemma lookup_Nil: "lookup [] k = None"
  by (simp add: lookup_def map_find_def)

lemma loop_step_next:
  assumes "next_path_is env fuel policyResult h p (Some q)" and "q \<notin> set (order @ [p])"
  shows "\<exists>s1. warnings s1 = warnings s
     \<and> DetourGetFinalPaths_loop env fuel (Suc n) path p h order fp policyResult s
       = DetourGetFinalPaths_loop env fuel n path q None (order @ [p])
           (emplace p Intermediate fp) policyResult s1"
proof -
  from next_path_is_Some [OF assms(1), of s] obtain r where
    r: "TryGetNextPath env fuel p h [] policyResult s = Inr r"
    and f: "fst r" "Canonicalize env (fst (snd r)) = q" by blast
  have "warnings (snd (snd r)) = warnings s" by (rule TryGetNextPath_warnings [OF r])
  moreover have "DetourGetFinalPaths_loop env fuel (Suc n) path p h order fp policyResult s
       = DetourGetFinalPaths_loop env fuel n path q None (order @ [p])
           (emplace p Intermediate fp) policyResult (snd (snd r))"
    using r f assms(2) by simp
  ultimately show ?thesis by blast
qed

lemma loop_step_cycle:
  assumes "next_path_is env fuel policyResult h p (Some q)" and "q \<in> set (order @ [p])"
  shows "\<exists>s1. warnings s1 = warnings s @ [path]
     \<and> DetourGetFinalPaths_loop env fuel (Suc n) path p h order fp policyResult s
       = Inr (order @ [p], emplace p Intermediate fp, s1)"
proof -
  from next_path_is_Some [OF assms(1), of s] obtain r where
    r: "TryGetNextPath env fuel p h [] policyResult s = Inr r"
    and f: "fst r" "Canonicalize env (fst (snd r)) = q" by blast
  have "warnings (snd (snd r)) = warnings s" by (rule TryGetNextPath_warnings [OF r])
  then have "warnings ((snd (snd r))\<lparr>warnings := warnings (snd (snd r)) @ [path]\<rparr>)
      = warnings s @ [path]" by simp
  moreover have "DetourGetFinalPaths_loop env fuel (Suc n) path p h order fp policyResult s
       = Inr (order @ [p], emplace p Intermediate fp,
              (snd (snd r))\<lparr>warnings := warnings (snd (snd r)) @ [path]\<rparr>)"
    using r f assms(2) by simp
  ultimately show ?thesis by blast
qed

lemma loop_step_end:
  assumes "next_path_is env fuel policyResult h p None"
  shows "\<exists>s1. warnings s1 = warnings s
     \<and> DetourGetFinalPaths_loop env fuel (Suc n) path p h order fp policyResult s
       = Inr (order @ [p], emplace p FullyResolved fp, s1)"
proof -
  from next_path_is_None [OF assms(1), of s] obtain r where
    r: "TryGetNextPath env fuel p h [] policyResult s = Inr r"
    and f: "\<not> fst r" by blast
  have "warnings (snd (snd r)) = warnings s" by (rule TryGetNextPath_warnings [OF r])
  moreover have "DetourGetFinalPaths_loop env fuel (Suc n) path p h order fp policyResult s
       = Inr (order @ [p], emplace p FullyResolved fp, snd (snd r))"
    using r f by simp
  ultimately show ?thesis by blast
qed

lemma loop_cycle:
  "follows env fuel policyResult h ps \<Longrightarrow> ps \<noteq> [] \<Longrightarrow>
   next_path_is env fuel policyResult (if length ps = 1 then h else None) (last ps) (Some q) \<Longrightarrow>
   q \<in> set (order @ ps) \<Longrightarrow> distinct (order @ ps) \<Longrightarrow> length ps \<le> n \<Longrightarrow>
   \<exists>fp' s'. DetourGetFinalPaths_loop env fuel n path (hd ps) h order fp policyResult s
               = Inr (order @ ps, fp', s')
            \<and> warnings s' = warnings s @ [path]"
proof (induction ps arbitrary: h order fp s n)
  case Nil
  then show ?case by simp
next
  case (Cons p ps)
  from Cons.prems(6) obtain m where n: "n = Suc m" and m: "length ps \<le> m"
    by (cases n) auto
  show ?case
  proof (cases ps)
    case Nil
    with Cons.prems have "next_path_is env fuel policyResult h p (Some q)"
      and "q \<in> set (order @ [p])" by auto
    from loop_step_cycle [OF this, where s=s and path=path and n=m and fp=fp] show ?thesis
      by (auto simp: n Nil)
  next
    case (Cons p2 rest)
    with Cons.prems(1) have step: "next_path_is env fuel policyResult h p (Some p2)"
      and fol: "follows env fuel policyResult None ps" by auto
    from Cons.prems(5) Cons have fresh: "p2 \<notin> set (order @ [p])" by auto
    from loop_step_next [OF step fresh, where s=s and path=path and n=m and fp=fp] obtain s1 where
      w1: "warnings s1 = warnings s" and
      eq: "DetourGetFinalPaths_loop env fuel (Suc m) path p h order fp policyResult s
       = DetourGetFinalPaths_loop env fuel m path p2 None (order @ [p])
           (emplace p Intermediate fp) policyResult s1" by blast
    have ne: "ps \<noteq> []" using Cons by simp
    have lastp: "next_path_is env fuel policyResult (if length ps = 1 then None else None)
        (last ps) (Some q)"
      using Cons.prems(3) ne by simp
    have q: "q \<in> set ((order @ [p]) @ ps)" using Cons.prems(4) by simp
    have d: "distinct ((order @ [p]) @ ps)" using Cons.prems(5) by simp
    from Cons.IH [OF fol ne lastp q d m, where fp="emplace p Intermediate fp" and s=s1]
    obtain fp' s' where
      "DetourGetFinalPaths_loop env fuel m path (hd ps) None (order @ [p])
         (emplace p Intermediate fp) policyResult s1 = Inr ((order @ [p]) @ ps, fp', s')"
      "warnings s' = warnings s1 @ [path]" by blast
    with eq w1 Cons show ?thesis by (auto simp: n)
  qed
qed

lemma chain_run:
  "map_sum id (\<lambda>r. (fst r, fst (snd r), warnings (snd (snd r))))
     (DetourGetFinalPaths chain_env (Suc (Suc (Suc 0)))
        \<lparr>GetPathString = winpath ''C:/a'', GetPathStringWithoutTypePrefix = winpath ''C:/a''\<rparr>
        None [] [] (allow_policy False Ignore) initial_state)
   = Inr ([winpath ''C:/a'', winpath ''C:/b'', winpath ''C:/c''],
          [(winpath ''C:/a'', Intermediate), (winpath ''C:/b'', Intermediate),
           (winpath ''C:/c'', FullyResolved)], [])"
  by (simp add: fixture_eval reader_eval resolver_eval walker_eval)

lemma cycle_run:
  "map_sum id (\<lambda>r. (fst r, fst (snd r), warnings (snd (snd r))))
     (DetourGetFinalPaths cycle_env (Suc (Suc 0))
        \<lparr>GetPathString = winpath ''C:/a'', GetPathStringWithoutTypePrefix = winpath ''C:/a''\<rparr>
        None [] [] (allow_policy False Ignore) initial_state)
   = Inr ([winpath ''C:/a'', winpath ''C:/b''],
          [(winpath ''C:/a'', Intermediate), (winpath ''C:/b'', Intermediate)],
          [winpath ''C:/a''])"
  by (simp add: fixture_eval reader_eval resolver_eval walker_eval)

lemma chain_steps:
  "next_path_is chain_env (Suc (Suc (Suc 0))) (allow_policy False Ignore) None
     (winpath ''C:/a'') (Some (winpath ''C:/b''))"
  "next_path_is chain_env (Suc (Suc (Suc 0))) (allow_policy False Ignore) None
     (winpath ''C:/b'') (Some (winpath ''C:/c''))"
  "next_path_is chain_env (Suc (Suc (Suc 0))) (allow_policy False Ignore) None
     (winpath ''C:/c'') None"
  by (simp_all add: next_path_is_def fixture_eval reader_eval resolver_eval)

lemma cycle_steps:
  "next_path_is cycle_env (Suc (Suc 0)) (allow_policy False Ignore) None
     (winpath ''C:/a'') (Some (winpath ''C:/b''))"
  "next_path_is cycle_env (Suc (Suc 0)) (allow_policy False Ignore) None
     (winpath ''C:/b'') (Some (winpath ''C:/a''))"
  by (simp_all add: next_path_is_def fixture_eval reader_eval resolver_eval)

text \<open>
  C2. The claim is that the last entry of every chain the walker produces is tagged
  FullyResolved and all earlier ones Intermediate, also when the walk ends early on a
  cycle. On a cycle the code leaves the loop without tagging anything: for the cycle
  between \<open>C:/a\<close> and \<open>C:/b\<close> the chain is \<open>[C:/a, C:/b]\<close> and both entries,
  the last one included, are Intermediate.
\<close>

theorem walker_cycle_last_entry_counterexample:
  "map_sum id (\<lambda>r. (fst r, fst (snd r)))
     (DetourGetFinalPaths cycle_env (Suc (Suc 0))
        \<lparr>GetPathString = winpath ''C:/a'', GetPathStringWithoutTypePrefix = winpath ''C:/a''\<rparr>
        None [] [] (allow_policy False Ignore) initial_state)
   = Inr ([winpath ''C:/a'', winpath ''C:/b''],
          [(winpath ''C:/a'', Intermediate), (winpath ''C:/b'', Intermediate)])
   \<and> map_at [(winpath ''C:/a'', Intermediate), (winpath ''C:/b'', Intermediate)]
        (last [winpath ''C:/a'', winpath ''C:/b'']) = Inr Intermediate"
  by (simp add: fixture_eval reader_eval resolver_eval walker_eval)

text \<open>
  C2, amended. For every chain the walker produces (started with an empty chain and an
  empty map): the chain is not empty and has no duplicates, and every entry before the
  last is tagged Intermediate. When the walk ends because the last path has no next
  path (no cycle warning is written), the last entry is tagged FullyResolved, provided
  no earlier entry is the same path up to letter case (the map is keyed without regard
  to case and \<open>emplace\<close> does not overwrite). When the walk ends early on a cycle
  (the warning is written), no entry is tagged FullyResolved: the last entry is
  Intermediate too.
\<close>

theorem walker_tags:
  assumes "DetourGetFinalPaths env fuel path hInput [] [] policyResult s = Inr r"
  shows "fst r \<noteq> [] \<and> distinct (fst r)
     \<and> (\<forall>p\<in>set (butlast (fst r)). map_at (fst (snd r)) p = Inr Intermediate)
     \<and> (warnings (snd (snd r)) = warnings s
          \<and> (\<forall>p\<in>set (butlast (fst r)). \<not> same_key p (last (fst r)))
        \<longrightarrow> map_at (fst (snd r)) (last (fst r)) = Inr FullyResolved)
     \<and> (warnings (snd (snd r)) \<noteq> warnings s
        \<longrightarrow> warnings (snd (snd r)) = warnings s @ [GetPathString path]
            \<and> map_at (fst (snd r)) (last (fst r)) = Inr Intermediate)"
proof -
  obtain order' fp' s' where r: "r = (order', fp', s')" by (cases r) auto
  from assms have "DetourGetFinalPaths_loop env fuel fuel (GetPathString path)
      (GetPathString path) hInput [] [] policyResult s = Inr (order', fp', s')"
    by (simp add: DetourGetFinalPaths_def r)
  from DetourGetFinalPaths_loop_invariant [OF this] show ?thesis
    by (auto simp: r map_at_lookup)
qed

theorem walker_tags_witness:
  "\<exists>r. DetourGetFinalPaths chain_env (Suc (Suc (Suc 0)))
          \<lparr>GetPathString = winpath ''C:/a'', GetPathStringWithoutTypePrefix = winpath ''C:/a''\<rparr>
          None [] [] (allow_policy False Ignore) initial_state = Inr r
       \<and> fst r = [winpath ''C:/a'', winpath ''C:/b'', winpath ''C:/c'']
       \<and> map_at (fst (snd r)) (winpath ''C:/a'') = Inr Intermediate
       \<and> map_at (fst (snd r)) (winpath ''C:/b'') = Inr Intermediate
       \<and> map_at (fst (snd r)) (winpath ''C:/c'') = Inr FullyResolved"
proof -
  from chain_run obtain r where
    r: "DetourGetFinalPaths chain_env (Suc (Suc (Suc 0)))
          \<lparr>GetPathString = winpath ''C:/a'', GetPathStringWithoutTypePrefix = winpath ''C:/a''\<rparr>
          None [] [] (allow_policy False Ignore) initial_state = Inr r"
    and order: "fst r = [winpath ''C:/a'', winpath ''C:/b'', winpath ''C:/c'']"
    and quiet: "warnings (snd (snd r)) = []"
    by (cases "DetourGetFinalPaths chain_env (Suc (Suc (Suc 0)))
          \<lparr>GetPathString = winpath ''C:/a'', GetPathStringWithoutTypePrefix = winpath ''C:/a''\<rparr>
          None [] [] (allow_policy False Ignore) initial_state") auto
  have quiet0: "warnings initial_state = []"
    by (simp add: initial_state_def)
  have fresh: "\<forall>p\<in>set (butlast (fst r)). \<not> same_key p (last (fst r))"
    by (simp add: order same_key_iff cache_key_def towlower_def winpath_def BACKSLASH_def)
  from walker_tags [OF r] quiet quiet0 fresh
  have "\<forall>p\<in>set (butlast (fst r)). map_at (fst (snd r)) p = Inr Intermediate"
    and "map_at (fst (snd r)) (last (fst r)) = Inr FullyResolved"
    by simp_all
  with r order show ?thesis by simp
qed

text \<open>
  C5. For a cyclic chain, that is a list of distinct paths each of which leads to the
  next and the last of which leads back to one of them, the walker ends after as many
  iterations as the chain has paths (the bound \<open>fuel\<close> on the iterations need not
  be larger than the length of the chain); it returns exactly the paths of the chain, in
  order and without the revisited path appended again, and writes the cycle warning.
\<close>

theorem cyclic_chain_terminates:
  assumes "follows env fuel policyResult hInput ps"
    and "next_path_is env fuel policyResult (if length ps = 1 then hInput else None) (last ps)
           (Some q)"
    and "q \<in> set ps" and "distinct ps" and "ps \<noteq> []" and "length ps \<le> fuel"
  shows "\<exists>finalPaths s'.
     DetourGetFinalPaths env fuel
       \<lparr>GetPathString = hd ps, GetPathStringWithoutTypePrefix = w\<rparr> hInput [] [] policyResult s
       = Inr (ps, finalPaths, s')
     \<and> warnings s' = warnings s @ [hd ps]"
  using loop_cycle [OF assms(1) assms(5) assms(2), where order="[]" and n=fuel
      and path="hd ps" and fp="[]" and s=s] assms(3,4,6)
  by (simp add: DetourGetFinalPaths_def)

theorem cyclic_chain_terminates_witness:
  "follows cycle_env (Suc (Suc 0)) (allow_policy False Ignore) None
     [winpath ''C:/a'', winpath ''C:/b'']
   \<and> next_path_is cycle_env (Suc (Suc 0)) (allow_policy False Ignore)
       (if length [winpath ''C:/a'', winpath ''C:/b''] = 1 then None else None)
       (last [winpath ''C:/a'', winpath ''C:/b'']) (Some (winpath ''C:/a''))
   \<and> winpath ''C:/a'' \<in> set [winpath ''C:/a'', winpath ''C:/b'']
   \<and> distinct [winpath ''C:/a'', winpath ''C:/b'']
   \<and> length [winpath ''C:/a'', winpath ''C:/b''] \<le> Suc (Suc 0)
   \<and> (\<exists>finalPaths s'.
        DetourGetFinalPaths cycle_env (Suc (Suc 0))
          \<lparr>GetPathString = hd [winpath ''C:/a'', winpath ''C:/b''],
            GetPathStringWithoutTypePrefix = winpath ''C:/a''\<rparr>
          None [] [] (allow_policy False Ignore) initial_state
          = Inr ([winpath ''C:/a'', winpath ''C:/b''], finalPaths, s')
        \<and> warnings s' = warnings initial_state @ [hd [winpath ''C:/a'', winpath ''C:/b'']])"
proof -
  have h1: "follows cycle_env (Suc (Suc 0)) (allow_policy False Ignore) None
     [winpath ''C:/a'', winpath ''C:/b'']"
    using cycle_steps(1) by simp
  have h2: "next_path_is cycle_env (Suc (Suc 0)) (allow_policy False Ignore)
       (if length [winpath ''C:/a'', winpath ''C:/b''] = 1 then None else None)
       (last [winpath ''C:/a'', winpath ''C:/b'']) (Some (winpath ''C:/a''))"
    using cycle_steps(2) by simp
  have h3: "winpath ''C:/a'' \<in> set [winpath ''C:/a'', winpath ''C:/b'']"
    by simp
  have h4: "distinct [winpath ''C:/a'', winpath ''C:/b'']"
    by (simp add: winpath_def)
  have h5: "[winpath ''C:/a'', winpath ''C:/b''] \<noteq> []"
    by simp
  have h6: "length [winpath ''C:/a'', winpath ''C:/b''] \<le> Suc (Suc 0)"
    by simp
  from cyclic_chain_terminates [OF h1 h2 h3 h4 h5 h6, of "winpath ''C:/a''" initial_state]
    h1 h2 h3 h4 h6
  show ?thesis by blast
qed

lemma char_of_lower_case:
  "char_of (97::nat) = CHR ''a''" "char_of (99::nat) = CHR ''c''"
  by code_simp+

text \<open>
  C6. The claim is that for every chain of three hops, where \<open>A\<close> leads to
  \<open>B\<close>, \<open>B\<close> leads to \<open>C\<close> and \<open>C\<close> is not a reparse point, the walker
  tags \<open>A\<close> and \<open>B\<close> Intermediate and \<open>C\<close> FullyResolved. The map of tags is
  keyed without regard to letter case and \<open>emplace\<close> does not overwrite: in the
  chain from \<open>C:/a\<close> over \<open>C:/b\<close> to the plain file \<open>c:/A\<close> the three
  paths are different strings, the ordered chain has all three, and the tag read for
  the last one is the Intermediate of the first.
\<close>

theorem three_hop_chain_letter_case_counterexample:
  "next_path_is case_env (Suc (Suc (Suc 0))) (allow_policy False Ignore) None
     (winpath ''C:/a'') (Some (winpath ''C:/b''))
   \<and> next_path_is case_env (Suc (Suc (Suc 0))) (allow_policy False Ignore) None
     (winpath ''C:/b'') (Some (winpath ''c:/A''))
   \<and> next_path_is case_env (Suc (Suc (Suc 0))) (allow_policy False Ignore) None
     (winpath ''c:/A'') None
   \<and> map_sum id (\<lambda>r. (fst r, fst (snd r)))
     (DetourGetFinalPaths case_env (Suc (Suc (Suc 0)))
        \<lparr>GetPathString = winpath ''C:/a'', GetPathStringWithoutTypePrefix = winpath ''C:/a''\<rparr>
        None [] [] (allow_policy False Ignore) initial_state)
   = Inr ([winpath ''C:/a'', winpath ''C:/b'', winpath ''c:/A''],
          [(winpath ''C:/a'', Intermediate), (winpath ''C:/b'', Intermediate)])
   \<and> map_at [(winpath ''C:/a'', Intermediate), (winpath ''C:/b'', Intermediate)]
        (winpath ''c:/A'') = Inr Intermediate"
  by (simp add: next_path_is_def fixture_eval reader_eval
      resolver_eval walker_eval char_of_lower_case)

text \<open>
  C6, amended. For a chain of three hops, where \<open>A\<close> leads to \<open>B\<close>, \<open>B\<close>
  leads to \<open>C\<close> and \<open>C\<close> has no next path (whatever the state of the process),
  \<open>A\<close> and \<open>B\<close> being different paths and \<open>C\<close> being different from
  \<open>A\<close> and from \<open>B\<close> also up to letter case (which is how the map tells paths
  apart), the walker, given at least three iterations, produces the chain
  \<open>[A, B, C]\<close> with \<open>A\<close> and \<open>B\<close> tagged Intermediate and \<open>C\<close> tagged
  FullyResolved.
\<close>

theorem three_hop_chain:
  assumes "next_path_is env fuel policyResult hInput A (Some B)"
    and "next_path_is env fuel policyResult None B (Some C)"
    and "next_path_is env fuel policyResult None C None"
    and "A \<noteq> B" and "\<not> same_key A C" and "\<not> same_key B C" and "3 \<le> fuel"
  shows "\<exists>finalPaths s'.
     DetourGetFinalPaths env fuel
       \<lparr>GetPathString = A, GetPathStringWithoutTypePrefix = w\<rparr> hInput [] [] policyResult s
       = Inr ([A, B, C], finalPaths, s')
     \<and> map_at finalPaths A = Inr Intermediate
     \<and> map_at finalPaths B = Inr Intermediate
     \<and> map_at finalPaths C = Inr FullyResolved"
proof -
  from assms(7) obtain k where fuel: "fuel = Suc (Suc (Suc k))"
    by (metis Suc_le_D numeral_3_eq_3 le_Suc_ex add_Suc)
  have ac: "A \<noteq> C" and bc: "B \<noteq> C"
    using assms(5,6) same_key_refl by auto
  from loop_step_next [OF assms(1), where order="[]" and s=s and n="Suc (Suc k)" and path=A
      and fp="[]"] assms(4)
  obtain s1 where 1:
    "DetourGetFinalPaths_loop env fuel (Suc (Suc (Suc k))) A A hInput [] [] policyResult s
       = DetourGetFinalPaths_loop env fuel (Suc (Suc k)) A B None [A]
           (emplace A Intermediate []) policyResult s1" by auto
  from loop_step_next [OF assms(2), where order="[A]" and s=s1 and n="Suc k" and path=A
      and fp="emplace A Intermediate []"] ac bc
  obtain s2 where 2:
    "DetourGetFinalPaths_loop env fuel (Suc (Suc k)) A B None [A]
           (emplace A Intermediate []) policyResult s1
       = DetourGetFinalPaths_loop env fuel (Suc k) A C None [A, B]
           (emplace B Intermediate (emplace A Intermediate [])) policyResult s2" by auto
  from loop_step_end [OF assms(3), where s=s2 and n=k and path=A and order="[A, B]"
      and fp="emplace B Intermediate (emplace A Intermediate [])"]
  obtain s3 where 3:
    "DetourGetFinalPaths_loop env fuel (Suc k) A C None [A, B]
           (emplace B Intermediate (emplace A Intermediate [])) policyResult s2
       = Inr ([A, B, C],
              emplace C FullyResolved (emplace B Intermediate (emplace A Intermediate [])),
              s3)" by auto
  let ?fp = "emplace C FullyResolved (emplace B Intermediate (emplace A Intermediate []))"
  have run: "DetourGetFinalPaths env fuel
       \<lparr>GetPathString = A, GetPathStringWithoutTypePrefix = w\<rparr> hInput [] [] policyResult s
       = Inr ([A, B, C], ?fp, s3)"
    using 1 2 3 by (simp add: DetourGetFinalPaths_def fuel)
  have sym: "\<not> same_key C A" "\<not> same_key C B"
    using assms(5,6) by (auto simp: same_key_iff)
  have la: "lookup ?fp A = Some Intermediate"
    using assms(5,6) sym
    by (simp add: lookup_emplace same_key_refl lookup_Nil split: option.splits)
  have lb: "lookup ?fp B = Some Intermediate"
    using assms(5,6) sym
    by (simp add: lookup_emplace same_key_refl lookup_Nil split: option.splits)
  have lc: "lookup ?fp C = Some FullyResolved"
    using assms(5,6) sym
    by (simp add: lookup_emplace same_key_refl lookup_Nil split: option.splits)
  from run la lb lc show ?thesis by (simp add: map_at_lookup)
qed

theorem three_hop_chain_witness:
  "next_path_is chain_env (Suc (Suc (Suc 0))) (allow_policy False Ignore) None
     (winpath ''C:/a'') (Some (winpath ''C:/b''))
   \<and> next_path_is chain_env (Suc (Suc (Suc 0))) (allow_policy False Ignore) None
     (winpath ''C:/b'') (Some (winpath ''C:/c''))
   \<and> next_path_is chain_env (Suc (Suc (Suc 0))) (allow_policy False Ignore) None
     (winpath ''C:/c'') None
   \<and> winpath ''C:/a'' \<noteq> winpath ''C:/b''
   \<and> \<not> same_key (winpath ''C:/a'') (winpath ''C:/c'')
   \<and> \<not> same_key (winpath ''C:/b'') (winpath ''C:/c'')
   \<and> 3 \<le> Suc (Suc (Suc 0))
   \<and> (\<exists>finalPaths s'.
        DetourGetFinalPaths chain_env (Suc (Suc (Suc 0)))
          \<lparr>GetPathString = winpath ''C:/a'', GetPathStringWithoutTypePrefix = winpath ''C:/a''\<rparr>
          None [] [] (allow_policy False Ignore) initial_state
          = Inr ([winpath ''C:/a'', winpath ''C:/b'', winpath ''C:/c''], finalPaths, s')
        \<and> map_at finalPaths (winpath ''C:/a'') = Inr Intermediate
        \<and> map_at finalPaths (winpath ''C:/b'') = Inr Intermediate
        \<and> map_at finalPaths (winpath ''C:/c'') = Inr FullyResolved)"
proof -
  have h4: "winpath ''C:/a'' \<noteq> winpath ''C:/b''"
    by (simp add: winpath_def)
  have h5: "\<not> same_key (winpath ''C:/a'') (winpath ''C:/c'')"
    by (simp add: same_key_iff cache_key_def towlower_def winpath_def)
  have h6: "\<not> same_key (winpath ''C:/b'') (winpath ''C:/c'')"
    by (simp add: same_key_iff cache_key_def towlower_def winpath_def)
  have h7: "3 \<le> Suc (Suc (Suc 0))"
    by simp
  from three_hop_chain [OF chain_steps(1) chain_steps(2) chain_steps(3) h4 h5 h6 h7,
      of "winpath ''C:/a''" initial_state]
    chain_steps h4 h5 h6 h7
  show ?thesis by blast
qed

subsection \<open>The access enforcer\<close>











lemma wants_GENERIC_READ:
  "WantsWriteAccess GENERIC_READ = False"
  "WantsReadAccess GENERIC_READ = True"
  "WantsProbeOnlyAccess GENERIC_READ = False"
  "FlagsAndAttributesContainReparsePointFlag
     (FILE_FLAG_OPEN_REPARSE_POINT OR FILE_FLAG_BACKUP_SEMANTICS) = True"
  by (simp_all add: WantsWriteAccess_def WantsReadAccess_def WantsProbeOnlyAccess_def
      FlagsAndAttributesContainReparsePointFlag_def
      GENERIC_READ_def GENERIC_WRITE_def GENERIC_ALL_def DELETE_def FILE_READ_DATA_def
      FILE_WRITE_DATA_def FILE_APPEND_DATA_def FILE_WRITE_EA_def FILE_WRITE_ATTRIBUTES_def
      FILE_FLAG_OPEN_REPARSE_POINT_def FILE_FLAG_BACKUP_SEMANTICS_def)

text \<open>
  C8. A hop enforced with \<open>isFullyResolvedPath = false\<close> is policed as a read of the
  reparse point itself, whatever the caller asked for. The operation context is built
  with \<open>GENERIC_READ\<close>, full sharing, \<open>OPEN_EXISTING\<close> and the flags that open
  the reparse point; the caller's desired access, share mode, disposition and flags
  appear nowhere in the outcome. With this context the write check of the policy is
  never consulted, the read check is asked for a read (not a probe), and the report, if
  one is sent, carries this context. A hop enforced with
  \<open>isFullyResolvedPath = true\<close> is policed on the caller's own values: the desired
  access decides which checks of the policy are consulted, and the report carries the
  caller's desired access, share mode, disposition and flags.
\<close>

theorem intermediate_hop_probe_context:
  "EnforceReparsePointAccess env p da sm cd fa nt ea icd False name s =
     (let context =
            \<lparr>Operation = name, NoncanonicalPath = p, DesiredAccess = GENERIC_READ,
             ShareMode = FILE_SHARE_READ OR FILE_SHARE_DELETE OR FILE_SHARE_WRITE,
             CreationDisposition = OPEN_EXISTING,
             FlagsAndAttributes = FILE_FLAG_OPEN_REPARSE_POINT OR FILE_FLAG_BACKUP_SEMANTICS,
             OpenedFileOrDirectoryAttributes = INVALID_FILE_ATTRIBUTES\<rparr>
      in case PolicyInitialize env p of
           None \<Rightarrow>
             (False, nt, s\<lparr>reports := reports s @ [IndeterminatePolicyReport context]\<rparr>)
         | Some policy \<Rightarrow>
             if ea then
               (let attributes = fst (GetFileAttributesW env p);
                    check =
                      Combine (AccessCheckResult3 RequestedAccess_None Allow Ignore)
                        (CheckReadAccess policy ReadAccess_Read
                           \<lparr>Existence = (if attributes \<noteq> INVALID_FILE_ATTRIBUTES then Existent
                                         else Nonexistent),
                            OpenedDirectory =
                              IsDirectoryFromAttributes attributes
                                (\<not> IgnoreFullReparsePointResolvingForPath env policy
                                 \<and> \<not> TreatDirectorySymlinkAsDirectory policy)\<rparr>);
                    error = (if ShouldDenyAccess check then DenialError check else LastError s)
                in (\<not> ShouldDenyAccess check,
                    (if ShouldDenyAccess check
                     then map_option (\<lambda>v. DenialNtStatus check) nt else nt),
                    s\<lparr>calls := calls s @ [Ev_GetFileAttributesW p, Ev_GetFileAttributesW p],
                      reports := reports s @
                        (if ShouldReport check
                         then [FileAccessReport
                                 (context\<lparr>OpenedFileOrDirectoryAttributes := attributes\<rparr>)
                                 (GetFileAccessStatus check) check error]
                         else []),
                      LastError := error\<rparr>))
             else (True, nt, s))
   \<and> EnforceReparsePointAccess env p da sm cd fa nt ea icd True name s =
     (let context =
            \<lparr>Operation = name, NoncanonicalPath = p, DesiredAccess = da, ShareMode = sm,
             CreationDisposition = cd, FlagsAndAttributes = fa,
             OpenedFileOrDirectoryAttributes = INVALID_FILE_ATTRIBUTES\<rparr>
      in case PolicyInitialize env p of
           None \<Rightarrow>
             (False, nt, s\<lparr>reports := reports s @ [IndeterminatePolicyReport context]\<rparr>)
         | Some policy \<Rightarrow>
             if ea then
               (let reads = (WantsReadAccess da \<or> WantsProbeOnlyAccess da);
                    attributes = fst (GetFileAttributesW env p);
                    write_check =
                      (if WantsWriteAccess da
                       then (if icd then CheckCreateDirectoryAccess policy
                             else CheckWriteAccess policy)
                       else AccessCheckResult3 RequestedAccess_None Allow Ignore);
                    check =
                      (if reads then
                         Combine write_check
                           (CheckReadAccess policy
                              (if WantsProbeOnlyAccess da then ReadAccess_Probe
                               else ReadAccess_Read)
                              \<lparr>Existence = (if attributes \<noteq> INVALID_FILE_ATTRIBUTES
                                            then Existent else Nonexistent),
                               OpenedDirectory =
                                 IsDirectoryFromAttributes attributes
                                   (ShouldTreatDirectoryReparsePointAsFile env da fa policy)\<rparr>)
                       else write_check);
                    error = (if ShouldDenyAccess check then DenialError check else LastError s)
                in (\<not> ShouldDenyAccess check,
                    (if ShouldDenyAccess check
                     then map_option (\<lambda>v. DenialNtStatus check) nt else nt),
                    s\<lparr>calls := calls s @
                        (if reads then [Ev_GetFileAttributesW p, Ev_GetFileAttributesW p]
                         else []),
                      reports := reports s @
                        (if ShouldReport check
                         then [FileAccessReport
                                 (context\<lparr>OpenedFileOrDirectoryAttributes :=
                                    (if reads then attributes else INVALID_FILE_ATTRIBUTES)\<rparr>)
                                 (GetFileAccessStatus check) check error]
                         else []),
                      LastError := error\<rparr>))
             else (True, nt, s))"
proof (intro conjI)
  show "EnforceReparsePointAccess env p da sm cd fa nt ea icd False name s =
     (let context =
            \<lparr>Operation = name, NoncanonicalPath = p, DesiredAccess = GENERIC_READ,
             ShareMode = FILE_SHARE_READ OR FILE_SHARE_DELETE OR FILE_SHARE_WRITE,
             CreationDisposition = OPEN_EXISTING,
             FlagsAndAttributes = FILE_FLAG_OPEN_REPARSE_POINT OR FILE_FLAG_BACKUP_SEMANTICS,
             OpenedFileOrDirectoryAttributes = INVALID_FILE_ATTRIBUTES\<rparr>
      in case PolicyInitialize env p of
           None \<Rightarrow>
             (False, nt, s\<lparr>reports := reports s @ [IndeterminatePolicyReport context]\<rparr>)
         | Some policy \<Rightarrow>
             if ea then
               (let attributes = fst (GetFileAttributesW env p);
                    check =
                      Combine (AccessCheckResult3 RequestedAccess_None Allow Ignore)
                        (CheckReadAccess policy ReadAccess_Read
                           \<lparr>Existence = (if attributes \<noteq> INVALID_FILE_ATTRIBUTES then Existent
                                         else Nonexistent),
                            OpenedDirectory =
                              IsDirectoryFromAttributes attributes
                                (\<not> IgnoreFullReparsePointResolvingForPath env policy
                                 \<and> \<not> TreatDirectorySymlinkAsDirectory policy)\<rparr>);
                    error = (if ShouldDenyAccess check then DenialError check else LastError s)
                in (\<not> ShouldDenyAccess check,
                    (if ShouldDenyAccess check
                     then map_option (\<lambda>v. DenialNtStatus check) nt else nt),
                    s\<lparr>calls := calls s @ [Ev_GetFileAttributesW p, Ev_GetFileAttributesW p],
                      reports := reports s @
                        (if ShouldReport check
                         then [FileAccessReport
                                 (context\<lparr>OpenedFileOrDirectoryAttributes := attributes\<rparr>)
                                 (GetFileAccessStatus check) check error]
                         else []),
                      LastError := error\<rparr>))
             else (True, nt, s))"
    by (simp add: EnforceReparsePointAccess_def EnforceReparsePointAccess_opContext_def
        EnforceReparsePointAccess_check_def IsHandleOrPathToDirectory_def
        IsHandleOrPathToDirectory_flag_def GetFileAttributesByPath_def
        ShouldTreatDirectoryReparsePointAsFile_def wants_GENERIC_READ
        ReportIfNeeded_def ReportIndeterminatePolicyAndSetLastError_def os_call_def
        ShouldReport_def AccessCheckResult3_def Let_def
        split: option.splits)
  show "EnforceReparsePointAccess env p da sm cd fa nt ea icd True name s =
     (let context =
            \<lparr>Operation = name, NoncanonicalPath = p, DesiredAccess = da, ShareMode = sm,
             CreationDisposition = cd, FlagsAndAttributes = fa,
             OpenedFileOrDirectoryAttributes = INVALID_FILE_ATTRIBUTES\<rparr>
      in case PolicyInitialize env p of
           None \<Rightarrow>
             (False, nt, s\<lparr>reports := reports s @ [IndeterminatePolicyReport context]\<rparr>)
         | Some policy \<Rightarrow>
             if ea then
               (let reads = (WantsReadAccess da \<or> WantsProbeOnlyAccess da);
                    attributes = fst (GetFileAttributesW env p);
                    write_check =
                      (if WantsWriteAccess da
                       then (if icd then CheckCreateDirectoryAccess policy
                             else CheckWriteAccess policy)
                       else AccessCheckResult3 RequestedAccess_None Allow Ignore);
                    check =
                      (if reads then
                         Combine write_check
                           (CheckReadAccess policy
                              (if WantsProbeOnlyAccess da then ReadAccess_Probe
                               else ReadAccess_Read)
                              \<lparr>Existence = (if attributes \<noteq> INVALID_FILE_ATTRIBUTES
                                            then Existent else Nonexistent),
                               OpenedDirectory =
                                 IsDirectoryFromAttributes attributes
                                   (ShouldTreatDirectoryReparsePointAsFile env da fa policy)\<rparr>)
                       else write_check);
                    error = (if ShouldDenyAccess check then DenialError check else LastError s)
                in (\<not> ShouldDenyAccess check,
                    (if ShouldDenyAccess check
                     then map_option (\<lambda>v. DenialNtStatus check) nt else nt),
                    s\<lparr>calls := calls s @
                        (if reads then [Ev_GetFileAttributesW p, Ev_GetFileAttributesW p]
                         else []),
                      reports := reports s @
                        (if ShouldReport check
                         then [FileAccessReport
                                 (context\<lparr>OpenedFileOrDirectoryAttributes :=
                                    (if reads then attributes else INVALID_FILE_ATTRIBUTES)\<rparr>)
                                 (GetFileAccessStatus check) check error]
                         else []),
                      LastError := error\<rparr>))
             else (True, nt, s))"
    by (simp add: EnforceReparsePointAccess_def EnforceReparsePointAccess_opContext_def
        EnforceReparsePointAccess_check_def IsHandleOrPathToDirectory_def
        IsHandleOrPathToDirectory_flag_def GetFileAttributesByPath_def
        ReportIfNeeded_def ReportIndeterminatePolicyAndSetLastError_def os_call_def
        ShouldReport_def AccessCheckResult3_def Let_def
        split: option.splits)
qed

text \<open>
  On a policy that allows reads and denies writes, a write through the chain passes the
  intermediate hop \<open>C:/a\<close>, reported as a read of the reparse point, and is denied
  at the fully resolved hop \<open>C:/c\<close>, reported as the write the caller asked for.
\<close>

theorem intermediate_hop_probe_context_witness:
  "fst (EnforceReparsePointAccess readonly_chain_env (winpath ''C:/a'') GENERIC_WRITE 0 2 0
          None True False False ''ReparsePointTarget'' initial_state) = True
   \<and> map report_context
        (reports (snd (snd (EnforceReparsePointAccess readonly_chain_env (winpath ''C:/a'')
           GENERIC_WRITE 0 2 0 None True False False ''ReparsePointTarget'' initial_state))))
      = [\<lparr>Operation = ''ReparsePointTarget'', NoncanonicalPath = winpath ''C:/a'',
          DesiredAccess = GENERIC_READ,
          ShareMode = FILE_SHARE_READ OR FILE_SHARE_DELETE OR FILE_SHARE_WRITE,
          CreationDisposition = OPEN_EXISTING,
          FlagsAndAttributes = FILE_FLAG_OPEN_REPARSE_POINT OR FILE_FLAG_BACKUP_SEMANTICS,
          OpenedFileOrDirectoryAttributes = FILE_ATTRIBUTE_REPARSE_POINT\<rparr>]
   \<and> fst (EnforceReparsePointAccess readonly_chain_env (winpath ''C:/c'') GENERIC_WRITE 0 2 0
          None True False True ''ReparsePointTarget'' initial_state) = False
   \<and> map report_context
        (reports (snd (snd (EnforceReparsePointAccess readonly_chain_env (winpath ''C:/c'')
           GENERIC_WRITE 0 2 0 None True False True ''ReparsePointTarget'' initial_state))))
      = [\<lparr>Operation = ''ReparsePointTarget'', NoncanonicalPath = winpath ''C:/c'',
          DesiredAccess = GENERIC_WRITE, ShareMode = 0, CreationDisposition = 2,
          FlagsAndAttributes = 0,
          OpenedFileOrDirectoryAttributes = INVALID_FILE_ATTRIBUTES\<rparr>]"
proof -
  note closed = intermediate_hop_probe_context [of readonly_chain_env _ GENERIC_WRITE 0 2 0 None True False
      "''ReparsePointTarget''" initial_state]
  have policy: "\<And>p. PolicyInitialize readonly_chain_env p = Some readonly_policy"
    by (simp add: readonly_chain_env_def fixture_env_def)
  have wants: "WantsWriteAccess GENERIC_WRITE" "\<not> WantsReadAccess GENERIC_WRITE"
    "\<not> WantsProbeOnlyAccess GENERIC_WRITE"
    by (simp_all add: WantsWriteAccess_def WantsReadAccess_def WantsProbeOnlyAccess_def
        GENERIC_READ_def GENERIC_WRITE_def GENERIC_ALL_def DELETE_def FILE_READ_DATA_def
        FILE_WRITE_DATA_def FILE_APPEND_DATA_def FILE_WRITE_EA_def FILE_WRITE_ATTRIBUTES_def)
  have attrs: "fst (GetFileAttributesW readonly_chain_env (winpath ''C:/a''))
                 = FILE_ATTRIBUTE_REPARSE_POINT"
    by (simp add: readonly_chain_env_def fixture_eval)
  have checks:
    "CheckWriteAccess readonly_policy = AccessCheckResult3 RequestedAccess_Write Deny Report"
    "\<And>a c. CheckReadAccess readonly_policy a c
              = AccessCheckResult3 RequestedAccess_Read Allow Report"
    by (simp_all add: readonly_policy_def)
  have intermediate:
    "fst (EnforceReparsePointAccess readonly_chain_env (winpath ''C:/a'') GENERIC_WRITE 0 2 0
          None True False False ''ReparsePointTarget'' initial_state) = True"
    "map report_context
        (reports (snd (snd (EnforceReparsePointAccess readonly_chain_env (winpath ''C:/a'')
           GENERIC_WRITE 0 2 0 None True False False ''ReparsePointTarget'' initial_state))))
      = [\<lparr>Operation = ''ReparsePointTarget'', NoncanonicalPath = winpath ''C:/a'',
          DesiredAccess = GENERIC_READ,
          ShareMode = FILE_SHARE_READ OR FILE_SHARE_DELETE OR FILE_SHARE_WRITE,
          CreationDisposition = OPEN_EXISTING,
          FlagsAndAttributes = FILE_FLAG_OPEN_REPARSE_POINT OR FILE_FLAG_BACKUP_SEMANTICS,
          OpenedFileOrDirectoryAttributes = FILE_ATTRIBUTE_REPARSE_POINT\<rparr>]"
    unfolding closed [THEN conjunct1]
    by (simp_all add: policy attrs checks Let_def Combine_def AccessCheckResult3_def
        ShouldDenyAccess_def ShouldReport_def initial_state_def)
  have resolved:
    "fst (EnforceReparsePointAccess readonly_chain_env (winpath ''C:/c'') GENERIC_WRITE 0 2 0
          None True False True ''ReparsePointTarget'' initial_state) = False"
    "map report_context
        (reports (snd (snd (EnforceReparsePointAccess readonly_chain_env (winpath ''C:/c'')
           GENERIC_WRITE 0 2 0 None True False True ''ReparsePointTarget'' initial_state))))
      = [\<lparr>Operation = ''ReparsePointTarget'', NoncanonicalPath = winpath ''C:/c'',
          DesiredAccess = GENERIC_WRITE, ShareMode = 0, CreationDisposition = 2,
          FlagsAndAttributes = 0,
          OpenedFileOrDirectoryAttributes = INVALID_FILE_ATTRIBUTES\<rparr>]"
    unfolding closed [THEN conjunct2]
    by (simp_all add: policy wants checks Let_def AccessCheckResult3_def
        ShouldDenyAccess_def ShouldReport_def initial_state_def)
  from intermediate resolved show ?thesis by (intro conjI)
qed

subsection \<open>Resolving all reparse points of a path\<close>
















subsection \<open>Enforcing a chain\<close>











end
